theory Spec2Isabelle
  imports Main
begin

section \<open>Values shared by the fetch pipeline\<close>

text \<open>
  A header value as Node hands it over: \<^verbatim>\<open>string | string[] | undefined\<close>.
  \<open>undefined\<close> and \<open>null\<close> are \<open>None\<close> of \<open>hval option\<close>.
\<close>

datatype hval = Str string | Arr "string list"

text \<open>
  The failures of the pipeline. The source distinguishes the plain \<^verbatim>\<open>Error\<close> values
  by their message only; here each constructor carries the data that goes into the message
  (or, for the redirection loop, into the \<^verbatim>\<open>urls\<close> property). \<open>InvalidURL\<close> is the
  \<^verbatim>\<open>TypeError\<close> that \<^verbatim>\<open>new URL(...)\<close> throws.
\<close>

datatype error =
    RedirectionLoop "string list"
  | InvalidURL
  | TimeoutError
  | AbortError
  | Error100
  | IllegalRedirect
  | RedirectionError "string option"
  | RedirectionMethodError "string option" string
  | UpgradeError
  | TransportError string

subsection \<open>utils.ts\<close>

text \<open>
  \<^verbatim>\<open>arrayify(value)\<close>: \<^verbatim>\<open>value == null ? [] : Array.isArray(value) ? value : [value]\<close>.
\<close>

fun arrayify :: "hval option \<Rightarrow> string list" where
  "arrayify None = []"
| "arrayify (Some (Arr xs)) = xs"
| "arrayify (Some (Str s)) = [s]"

text \<open>
  \<^verbatim>\<open>parseLocation(location, origin)\<close>. The URL class is the platform's: \<open>href loc base\<close>
  stands for \<^verbatim>\<open>new URL(loc, base).href\<close>, and is \<open>None\<close> where the constructor throws.
\<close>

definition parseLocation ::
  "(string \<Rightarrow> string \<Rightarrow> string option) \<Rightarrow> hval option \<Rightarrow> string \<Rightarrow> error + string option"
where
  "parseLocation href location origin =
     (case location of
        Some (Str s) \<Rightarrow>
          (case href s origin of
             None \<Rightarrow> Inl InvalidURL
           | Some h \<Rightarrow> Inr (Some h))
      | _ \<Rightarrow> Inr None)"

subsection \<open>fetch-common.ts: the circular-redirection check\<close>

text \<open>\<^verbatim>\<open>urls.pop()\<close>: the last element (\<open>undefined\<close> on an empty array) and the rest.\<close>

definition pop :: "'a list \<Rightarrow> 'a option \<times> 'a list" where
  "pop xs = (if xs = [] then (None, []) else (Some (last xs), butlast xs))"

text \<open>
  The \<^verbatim>\<open>for\<close> loop of \<^verbatim>\<open>ensureNotCircularRedirection\<close>, as a recursion on what is left
  of \<^verbatim>\<open>urls\<close> from index \<open>i\<close> on: at the first \<^verbatim>\<open>urls[i] === last\<close> it throws, with
  \<^verbatim>\<open>urls.slice(i)\<close> attached.
\<close>

fun scan_urls :: "string list \<Rightarrow> string option \<Rightarrow> error + unit" where
  "scan_urls [] lst = Inr ()"
| "scan_urls (u # us) lst =
     (if Some u = lst then Inl (RedirectionLoop (u # us)) else scan_urls us lst)"

definition ensureNotCircularRedirection :: "string list \<Rightarrow> error + unit" where
  "ensureNotCircularRedirection redirections =
     (case pop redirections of (lst, urls) \<Rightarrow> scan_urls urls lst)"

subsection \<open>fetch-common.ts: header assembly\<close>

text \<open>\<^verbatim>\<open>Array.prototype.join\<close> on strings.\<close>

fun join :: "string \<Rightarrow> string list \<Rightarrow> string" where
  "join sep [] = []"
| "join sep [x] = x"
| "join sep (x # y # ys) = x @ sep @ join sep (y # ys)"

record decoder =
  decoder_name :: string

text \<open>The \<^verbatim>\<open>acceptEncoding\<close> constant of \<^verbatim>\<open>setupFetch\<close>.\<close>

definition acceptEncoding :: "decoder list \<Rightarrow> string" where
  "acceptEncoding contentDecoders =
     (if length contentDecoders = 0
      then ''gzip;q=1.0, deflate;q=0.5''
      else join '', '' (map (\<lambda>d. decoder_name d @ '';q=1.0'') contentDecoders)
           @ '', gzip;q=0.8, deflate;q=0.5'')"


text \<open>
  The request as \<^verbatim>\<open>setupFetch\<close> reads it. \<open>headers\<close> are the entries of the request's
  \<^verbatim>\<open>Headers\<close> container (lower-case key, value); \<open>body_length\<close> and \<open>body_mime\<close> are
  what \<^verbatim>\<open>new BodyInspector(request)\<close> reports (\<open>None\<close> for \<open>null\<close>).
\<close>

datatype protocol = Http1 | Http2

datatype redirect_mode = Follow | Error | Manual

datatype callback = Callback nat

record request =
  url :: string
  req_method :: string
  redirect :: redirect_mode
  integrity :: "string option"
  headers :: "(string \<times> string) list"
  body_length :: "nat option"
  body_mime :: "string option"

text \<open>
  Modelled from the spec: the \<^verbatim>\<open>Headers\<close> container of \<^verbatim>\<open>./headers\<close> lies outside the
  three modules embedded here; \<^verbatim>\<open>has\<close>, \<^verbatim>\<open>get\<close> (a string or \<open>null\<close>) and \<^verbatim>\<open>entries\<close>
  are read off the list of its entries.
\<close>

definition headers_has :: "(string \<times> string) list \<Rightarrow> string \<Rightarrow> bool" where
  "headers_has hs k = (k \<in> set (map fst hs))"

definition headers_get :: "(string \<times> string) list \<Rightarrow> string \<Rightarrow> string option" where
  "headers_get hs k = map_of hs k"

text \<open>
  The cookie jar is the session's mutable state. Its storage format belongs to the cookie
  library, so the jar is kept as the sequence of \<^verbatim>\<open>setCookies(values, url)\<close> calls it has
  received, and what \<^verbatim>\<open>getCookies(url)\<close> answers from it is the platform's.
\<close>

type_synonym cookie_jar = "(string list \<times> string) list"

definition setCookies :: "string list \<Rightarrow> string \<Rightarrow> cookie_jar \<Rightarrow> cookie_jar" where
  "setCookies vals u jar = jar @ [(vals, u)]"

record session =
  protocol :: protocol
  accept :: string
  userAgent :: string
  contentDecoders :: "decoder list"
  cookieJar :: cookie_jar

record signal =
  aborted :: bool

record init =
  signal :: "signal option"
  onTrailers :: "callback option"
  timeout :: "int option"

record extra =
  redirected :: "string list"
  timeoutAt :: "int option"

record url_rec =
  origin :: string
  url_protocol :: string
  pathname :: string
  search :: string
  hash :: string

text \<open>
  What the code takes from its platform and from modules other than the three embedded
  here:
  \<^item> \<open>url_parts u\<close>: \<^verbatim>\<open>new URL(u)\<close>, \<open>None\<close> where it throws;
  \<^item> \<open>href loc base\<close>: \<^verbatim>\<open>new URL(loc, base).href\<close>, \<open>None\<close> where it throws;
  \<^item> \<open>isRedirectStatus\<close>: the table of that name imported from \<^verbatim>\<open>./utils\<close>;
  \<^item> \<open>getCookies jar u\<close>: the cookie strings the jar answers for \<open>u\<close>.
\<close>

record platform =
  url_parts :: "string \<Rightarrow> url_rec option"
  href :: "string \<Rightarrow> string \<Rightarrow> string option"
  isRedirectStatus :: "int \<Rightarrow> bool"
  getCookies :: "cookie_jar \<Rightarrow> string \<Rightarrow> string list"

type_synonym raw_headers = "string \<rightharpoonup> string"

text \<open>\<^verbatim>\<open>"" + n\<close> for a non-negative integer \<open>n\<close>.\<close>

function decimal :: "nat \<Rightarrow> string" where
  "decimal n =
     (if n < 10 then [''0123456789'' ! n]
      else decimal (n div 10) @ [''0123456789'' ! (n mod 10)])"
  by pat_completeness auto
termination
  by (relation "measure (\<lambda>n. n)") auto

declare decimal.simps [simp del]

text \<open>The cookie list: the jar's cookies, then what the request's own cookie header holds.\<close>

definition cookie_list :: "platform \<Rightarrow> session \<Rightarrow> request \<Rightarrow> string list" where
  "cookie_list pf session request =
     getCookies pf (cookieJar session) (url request)
     @ (if headers_has (headers request) ''cookie''
        then arrayify (map_option Str (headers_get (headers request) ''cookie''))
        else [])"

text \<open>The loop over \<^verbatim>\<open>headers.entries()\<close>.\<close>

fun copy_headers :: "protocol \<Rightarrow> (string \<times> string) list \<Rightarrow> raw_headers \<Rightarrow> raw_headers" where
  "copy_headers p [] h = h"
| "copy_headers p ((key, val) # rest) h =
     copy_headers p rest
       (if key = ''host'' \<and> p = Http2 then h('':authority'' \<mapsto> val)
        else if key \<noteq> ''cookie'' then h(key \<mapsto> val)
        else h)"

definition required_headers :: "session \<Rightarrow> request \<Rightarrow> url_rec \<Rightarrow> raw_headers" where
  "required_headers session request u =
     (if protocol session = Http1 then Map.empty
      else [ '':method'' \<mapsto> req_method request,
             '':scheme'' \<mapsto> takeWhile (\<lambda>c. c \<noteq> CHR '':'') (url_protocol u),
             '':path'' \<mapsto> pathname u @ search u @ hash u ])"

definition headersToSend :: "platform \<Rightarrow> session \<Rightarrow> request \<Rightarrow> url_rec \<Rightarrow> raw_headers" where
  "headersToSend pf session request u =
     (let endStream = (req_method request = ''GET'' \<or> req_method request = ''HEAD'');
          cookies = cookie_list pf session request;
          h0 = (required_headers session request u)
                 (''accept'' \<mapsto> accept session,
                  ''user-agent'' \<mapsto> userAgent session,
                  ''accept-encoding'' \<mapsto> acceptEncoding (contentDecoders session));
          h1 = (if length cookies > 0 then h0(''cookie'' \<mapsto> join ''; '' cookies) else h0);
          h2 = copy_headers (protocol session) (headers request) h1;
          h3 = (case body_length request of
                  Some n \<Rightarrow>
                    if \<not> endStream \<and> \<not> headers_has (headers request) ''content-length''
                    then h2(''content-length'' \<mapsto> decimal n) else h2
                | None \<Rightarrow> h2)
      in (case body_mime request of
            Some m \<Rightarrow>
              if \<not> endStream \<and> \<not> headers_has (headers request) ''content-type'' \<and> m \<noteq> []
              then h3(''content-type'' \<mapsto> m) else h3
          | None \<Rightarrow> h3))"

subsection \<open>fetch-common.ts: deadline and cancellation at setup\<close>

text \<open>
  \<^verbatim>\<open>extra.timeoutAt || (typeof init.timeout === "number" ? Date.now() + init.timeout : undefined)\<close>.
  Times are integer milliseconds; \<open>0\<close> is the falsy number.
\<close>

definition chain_deadline :: "int \<Rightarrow> init \<Rightarrow> extra \<Rightarrow> int option" where
  "chain_deadline now init extra =
     (case timeoutAt extra of
        Some t \<Rightarrow> if t \<noteq> 0 then Some t else map_option (\<lambda>d. now + d) (timeout init)
      | None \<Rightarrow> map_option (\<lambda>d. now + d) (timeout init))"

text \<open>
  \<^verbatim>\<open>setupTimeout()\<close>: \<open>null\<close> without a deadline, a throw when the deadline has passed,
  otherwise a timer armed with the delay \<^verbatim>\<open>timeoutAt - now\<close>.
\<close>

definition setupTimeout :: "int \<Rightarrow> int option \<Rightarrow> error + int option" where
  "setupTimeout now tAt =
     (case tAt of
        None \<Rightarrow> Inr None
      | Some t \<Rightarrow>
          if t = 0 then Inr None
          else if now \<ge> t then Inl TimeoutError
          else Inr (Some (t - now)))"

record fetch_setup =
  s_contentDecoders :: "decoder list"
  s_endStream :: bool
  s_headersToSend :: raw_headers
  s_integrity :: "string option"
  s_method :: string
  s_onTrailers :: "callback option"
  s_origin :: string
  s_redirect :: redirect_mode
  s_redirected :: "string list"
  s_request :: request
  s_signal :: "signal option"
  s_signalPromise :: bool
  s_timeoutAt :: "int option"
  s_timeoutInfo :: "int option"
  s_url :: string

text \<open>
  \<^verbatim>\<open>setupFetch\<close>. \<open>now0\<close> and \<open>now1\<close> are the two readings of \<^verbatim>\<open>Date.now()\<close>, the first
  where the deadline is fixed, the second in \<^verbatim>\<open>setupTimeout\<close>. \<open>s_timeoutInfo\<close> holds the
  delay of the armed timer and \<open>s_signalPromise\<close> says whether the abort listener was set.
\<close>

definition setupFetch ::
  "platform \<Rightarrow> int \<Rightarrow> int \<Rightarrow> session \<Rightarrow> request \<Rightarrow> init \<Rightarrow> extra \<Rightarrow> error + fetch_setup"
where
  "setupFetch pf now0 now1 session request init extra =
     (case ensureNotCircularRedirection (redirected extra) of
        Inl e \<Rightarrow> Inl e
      | Inr _ \<Rightarrow>
         (case url_parts pf (url request) of
            None \<Rightarrow> Inl InvalidURL
          | Some u \<Rightarrow>
             (let tAt = chain_deadline now0 init extra in
              case setupTimeout now1 tAt of
                Inl e \<Rightarrow> Inl e
              | Inr timeoutInfo \<Rightarrow>
                 if (case signal init of Some sg \<Rightarrow> aborted sg | None \<Rightarrow> False)
                 then Inl AbortError
                 else Inr \<lparr> s_contentDecoders = contentDecoders session,
                            s_endStream = (req_method request = ''GET'' \<or> req_method request = ''HEAD''),
                            s_headersToSend = headersToSend pf session request u,
                            s_integrity = integrity request,
                            s_method = req_method request,
                            s_onTrailers = onTrailers init,
                            s_origin = origin u,
                            s_redirect = redirect request,
                            s_redirected = redirected extra,
                            s_request = request,
                            s_signal = signal init,
                            s_signalPromise = (signal init \<noteq> None),
                            s_timeoutAt = tAt,
                            s_timeoutInfo = timeoutInfo,
                            s_url = url request \<rparr>)))"


text \<open>
  The closure variable \<^verbatim>\<open>timerId\<close>, the timer of the runtime and the signal's
  \<^verbatim>\<open>onabort\<close> property, as one attempt owns them. \<open>armed\<close> says that the runtime still has
  the timer scheduled; \<open>cancelled\<close> counts the scheduled timers that \<^verbatim>\<open>clearTimeout\<close> has
  removed and \<open>detached\<close> the listeners that \<^verbatim>\<open>delete signal.onabort\<close> has removed.
\<close>

record coordinator =
  has_timeoutInfo :: bool
  timerId :: bool
  armed :: bool
  has_signal :: bool
  onabort :: bool
  cancelled :: nat
  detached :: nat

text \<open>The coordinator as \<^verbatim>\<open>setupFetch\<close> leaves it when it returns.\<close>

definition coordinator_of :: "fetch_setup \<Rightarrow> coordinator" where
  "coordinator_of st =
     \<lparr> has_timeoutInfo = (s_timeoutInfo st \<noteq> None),
       timerId = (s_timeoutInfo st \<noteq> None),
       armed = (s_timeoutInfo st \<noteq> None),
       has_signal = (s_signal st \<noteq> None),
       onabort = s_signalPromise st,
       cancelled = 0,
       detached = 0 \<rparr>"

text \<open>
  \<^verbatim>\<open>clearTimeout(timerId)\<close>: the runtime removes the timer if it is still scheduled and
  ignores the handle of a timer that is not.
\<close>

definition clearTimeout :: "coordinator \<Rightarrow> coordinator" where
  "clearTimeout c =
     (if armed c then c\<lparr> armed := False, cancelled := Suc (cancelled c) \<rparr> else c)"

text \<open>\<^verbatim>\<open>delete signal.onabort\<close>.\<close>

definition delete_onabort :: "coordinator \<Rightarrow> coordinator" where
  "delete_onabort c =
     (if onabort c then c\<lparr> onabort := False, detached := Suc (detached c) \<rparr> else c)"

text \<open>The callback of the timer: \<^verbatim>\<open>timerId = null; reject(timeoutError())\<close>.\<close>

definition timer_fires :: "coordinator \<Rightarrow> coordinator" where
  "timer_fires c = (if armed c then c\<lparr> timerId := False, armed := False \<rparr> else c)"

text \<open>\<^verbatim>\<open>timeoutInfo.clear\<close>: \<^verbatim>\<open>if (timerId) clearTimeout(timerId)\<close>.\<close>

definition clear :: "coordinator \<Rightarrow> coordinator" where
  "clear c = (if timerId c then clearTimeout c else c)"

definition cleanup :: "coordinator \<Rightarrow> coordinator" where
  "cleanup c =
     (let c1 = (if has_timeoutInfo c then clear c else c)
      in if has_signal c then delete_onabort c1 else c1)"

section \<open>fetch-http1.ts\<close>

record incoming =
  statusCode :: int
  statusMessage :: string
  res_headers :: "string \<rightharpoonup> hval"

text \<open>
  The \<^verbatim>\<open>headers\<close> of an \<^verbatim>\<open>IncomingMessage\<close>, as the documentation of Node's \<^verbatim>\<open>http\<close>
  module describes them, built from the header lines of the response in the order
  received (names in lower case). \<^verbatim>\<open>set-cookie\<close> is always an array, to which repeated
  lines are added. Of a repeated header with one of the names in \<open>single_valued\<close>,
  \<^verbatim>\<open>location\<close> among them, the first value is kept and the others are discarded. The
  values of any other repeated header are joined into one string.
\<close>

definition single_valued :: "string list" where
  "single_valued =
     [''age'', ''authorization'', ''content-length'', ''content-type'', ''etag'', ''expires'',
      ''from'', ''host'', ''if-modified-since'', ''if-unmodified-since'', ''last-modified'',
      ''location'', ''max-forwards'', ''proxy-authorization'', ''referer'', ''retry-after'',
      ''server'', ''user-agent'']"

definition add_header :: "(string \<rightharpoonup> hval) \<Rightarrow> string \<times> string \<Rightarrow> (string \<rightharpoonup> hval)" where
  "add_header h line =
     (case line of (k, v) \<Rightarrow>
        if k = ''set-cookie'' then
          (case h k of
             Some (Arr xs) \<Rightarrow> h(k \<mapsto> Arr (xs @ [v]))
           | _ \<Rightarrow> h(k \<mapsto> Arr [v]))
        else
          (case h k of
             None \<Rightarrow> h(k \<mapsto> Str v)
           | Some (Str old) \<Rightarrow>
               if k \<in> set single_valued then h
               else if k = ''cookie'' then h(k \<mapsto> Str (old @ ''; '' @ v))
               else h(k \<mapsto> Str (old @ '', '' @ v))
           | Some (Arr xs) \<Rightarrow> h))"

definition node_headers :: "(string \<times> string) list \<Rightarrow> (string \<rightharpoonup> hval)" where
  "node_headers raw = foldl add_header Map.empty raw"

text \<open>The response that the listener receives for a status line and header lines.\<close>

definition delivered :: "int \<Rightarrow> string \<Rightarrow> (string \<times> string) list \<Rightarrow> incoming" where
  "delivered code msg raw =
     \<lparr> statusCode = code, statusMessage = msg, res_headers = node_headers raw \<rparr>"

record stream_response =
  r_contentDecoders :: "decoder list"
  r_url :: string
  r_headers :: "string \<rightharpoonup> hval"
  r_redirected :: bool
  r_status :: int
  r_statusText :: string
  r_httpVersion :: nat
  r_integrity :: "string option"

text \<open>
  What a listener of \<^verbatim>\<open>doFetch\<close> does with the promise \<^verbatim>\<open>response\<close>: nothing (the
  request is aborted and the listener returns), a rejection, a terminal response, a
  body-less response carrying only the status of an \<^verbatim>\<open>information\<close> event, or the
  recursive call of \<^verbatim>\<open>fetchImpl\<close> with its arguments.
\<close>

datatype listener_result =
    Ignored
  | Reject error
  | Resolve stream_response
  | Inform int
  | Continue request init extra

text \<open>Truthiness of a header value and of \<^verbatim>\<open>location\<close> (a string or \<open>null\<close>).\<close>

fun truthy :: "hval option \<Rightarrow> bool" where
  "truthy None = False"
| "truthy (Some (Str s)) = (s \<noteq> [])"
| "truthy (Some (Arr xs)) = True"

definition no_location :: "string option \<Rightarrow> bool" where
  "no_location location = (location = None \<or> location = Some [])"

text \<open>
  Modelled from the spec: \<^verbatim>\<open>request.clone(newURL)\<close> of \<^verbatim>\<open>./request\<close> lies outside the
  three modules embedded here; it keeps headers and body policy and rebinds the target.
\<close>

definition clone :: "request \<Rightarrow> string \<Rightarrow> request" where
  "clone r u = r\<lparr> url := u \<rparr>"

text \<open>
  Lines 167 to 216 of the listener: what becomes of the response once the location is
  parsed and the cookies are stored. \<open>hdrs\<close> are the headers after the two deletions.
\<close>

definition redirect_driver ::
  "platform \<Rightarrow> fetch_setup \<Rightarrow> extra \<Rightarrow> incoming \<Rightarrow> (string \<rightharpoonup> hval) \<Rightarrow> string option
     \<Rightarrow> listener_result"
where
  "redirect_driver pf st ex res hdrs location =
     (let isRedirected = isRedirectStatus pf (statusCode res) in
      if isRedirected \<and> no_location location then Reject IllegalRedirect
      else if \<not> isRedirected \<or> s_redirect st = Manual then
        Resolve \<lparr> r_contentDecoders = s_contentDecoders st,
                  r_url = s_url st,
                  r_headers = hdrs,
                  r_redirected = (if s_redirect st = Manual then False
                                  else length (redirected ex) > 0),
                  r_status = statusCode res,
                  r_statusText = statusMessage res,
                  r_httpVersion = 1,
                  r_integrity = s_integrity st \<rparr>
      else if s_redirect st = Error then Reject (RedirectionError location)
      else if \<not> s_endStream st then Reject (RedirectionMethodError location (s_method st))
      else (case location of
              None \<Rightarrow> Reject IllegalRedirect
            | Some loc \<Rightarrow>
                if loc = [] then Reject IllegalRedirect
                else Continue (clone (s_request st) loc)
                       \<lparr> signal = s_signal st, onTrailers = s_onTrailers st, timeout = None \<rparr>
                       \<lparr> redirected = s_redirected st @ [s_url st],
                         timeoutAt = s_timeoutAt st \<rparr>))"

text \<open>
  The listener of the \<^verbatim>\<open>response\<close> event. \<open>sg\<close> is the signal as it is when the response
  arrives. An exception inside the listener goes to \<^verbatim>\<open>reject\<close> (the listener is wrapped
  by \<^verbatim>\<open>syncGuard(reject, ...)\<close>). The session comes back with its cookie jar updated.
  The delivery of trailers, which settles nothing, is left out.
\<close>

definition onResponse ::
  "platform \<Rightarrow> fetch_setup \<Rightarrow> extra \<Rightarrow> signal option \<Rightarrow> incoming \<Rightarrow> session
     \<Rightarrow> session \<times> listener_result"
where
  "onResponse pf st ex sg res session =
     (if (case sg of Some s \<Rightarrow> aborted s | None \<Rightarrow> False) then (session, Ignored)
      else
        (case parseLocation (href pf) (res_headers res ''location'') (s_url st) of
           Inl e \<Rightarrow> (session, Reject e)
         | Inr location \<Rightarrow>
             (let session' =
                    (if truthy (res_headers res ''set-cookie'')
                     then session\<lparr> cookieJar :=
                            setCookies (arrayify (res_headers res ''set-cookie''))
                              (s_url st) (cookieJar session) \<rparr>
                     else session);
                  hdrs = (res_headers res)(''set-cookie'' := None, ''set-cookie2'' := None)
              in (session', redirect_driver pf st ex res hdrs location))))"


subsection \<open>One attempt and the redirect chain\<close>

text \<open>
  The first event that the request object emits in an attempt, with the listener that
  \<^verbatim>\<open>doFetch\<close> registers for it; \<open>Silence\<close> is a request that emits nothing.
\<close>

datatype transport_event =
    ErrorEvent string
  | AbortedEvent
  | ContinueEvent
  | InformationEvent int
  | TimeoutEvent
  | UpgradeEvent
  | ResponseEvent incoming
  | Silence

text \<open>
  What the environment contributes to one attempt: the two clock readings of
  \<^verbatim>\<open>setupFetch\<close>, whether the signal (if there is one) is aborted when \<^verbatim>\<open>setupFetch\<close>
  reads it, the time at which the signal fires during the attempt (if it does), and the
  transport's event with its time of arrival.
\<close>

record hop =
  now0 :: int
  now1 :: int
  aborted_at_setup :: bool
  abort_fires :: "int option"
  arrives :: int
  event :: transport_event

datatype response = Informational int | Stream stream_response

datatype outcome = Rejected error | Resolved response

datatype attempt_result =
    Settled outcome
  | Unsettled
  | Redirected request init extra

text \<open>
  What an attempt leaves behind: either \<^verbatim>\<open>setupFetch\<close> threw, or it returned and
  \<^verbatim>\<open>doFetch\<close> called \<^verbatim>\<open>session.get(url)\<close>, the network operation of the attempt.
\<close>

datatype trace_entry = SetupFailed error | Sent fetch_setup

fun sent_urls :: "trace_entry list \<Rightarrow> string list" where
  "sent_urls [] = []"
| "sent_urls (SetupFailed e # tr) = sent_urls tr"
| "sent_urls (Sent st # tr) = s_url st # sent_urls tr"

text \<open>
  \<^verbatim>\<open>Promise.race\<close> over \<^verbatim>\<open>[signalPromise, timeoutInfo.promise, fetcher()]\<close>: the promise
  that settles first wins, and of two that settle at the same time the one that comes
  first in the array. Each argument is the time at which that promise settles, \<open>None\<close>
  if it never does.
\<close>

datatype winner = BySignal | ByTimer | ByTransport | NoWinner

definition no_later :: "int option \<Rightarrow> int option \<Rightarrow> bool" where
  "no_later a b =
     (case a of
        None \<Rightarrow> False
      | Some x \<Rightarrow> (case b of None \<Rightarrow> True | Some y \<Rightarrow> x \<le> y))"

definition race :: "int option \<Rightarrow> int option \<Rightarrow> int option \<Rightarrow> winner" where
  "race t_signal t_timer t_transport =
     (if no_later t_signal t_timer \<and> no_later t_signal t_transport then BySignal
      else if no_later t_timer t_transport then ByTimer
      else if t_transport \<noteq> None then ByTransport
      else NoWinner)"

text \<open>The signal object as the environment has it at a given moment.\<close>

definition signal_now :: "init \<Rightarrow> bool \<Rightarrow> signal option" where
  "signal_now init ab = map_option (\<lambda>sg. sg\<lparr> aborted := ab \<rparr>) (signal init)"

text \<open>
  The promise \<^verbatim>\<open>response\<close> of \<^verbatim>\<open>doFetch\<close>: what the listener of the arriving event does
  with it. The signal is aborted at the arrival if it has fired by then.
\<close>

definition transport_result ::
  "platform \<Rightarrow> fetch_setup \<Rightarrow> init \<Rightarrow> extra \<Rightarrow> hop \<Rightarrow> session \<Rightarrow> session \<times> listener_result"
where
  "transport_result pf st init ex h session =
     (case event h of
        ErrorEvent m \<Rightarrow> (session, Reject (TransportError m))
      | AbortedEvent \<Rightarrow> (session, Reject AbortError)
      | ContinueEvent \<Rightarrow> (session, Reject Error100)
      | InformationEvent code \<Rightarrow> (session, Inform code)
      | TimeoutEvent \<Rightarrow> (session, Reject TimeoutError)
      | UpgradeEvent \<Rightarrow> (session, Reject UpgradeError)
      | ResponseEvent res \<Rightarrow>
          onResponse pf st ex
            (signal_now init (case abort_fires h of Some a \<Rightarrow> a \<le> arrives h | None \<Rightarrow> False))
            res session
      | Silence \<Rightarrow> (session, Ignored))"

text \<open>
  \<^verbatim>\<open>handleSignalAndTimeout\<close> for an attempt whose \<^verbatim>\<open>setupFetch\<close> returned \<open>st\<close>: the
  race between the signal, the timer and the transport, up to the point where it settles
  or the listener calls \<^verbatim>\<open>fetchImpl\<close> again. What a losing participant does after the
  race has settled is not followed.
\<close>

definition handleSignalAndTimeout ::
  "platform \<Rightarrow> fetch_setup \<Rightarrow> init \<Rightarrow> extra \<Rightarrow> hop \<Rightarrow> session \<Rightarrow> session \<times> attempt_result"
where
  "handleSignalAndTimeout pf st init ex h session =
     (case transport_result pf st init ex h session of
        (session', lr) \<Rightarrow>
          (case race (if s_signalPromise st then abort_fires h else None)
                     (map_option (\<lambda>d. now1 h + d) (s_timeoutInfo st))
                     (case lr of Ignored \<Rightarrow> None | _ \<Rightarrow> Some (arrives h)) of
             BySignal \<Rightarrow> (session, Settled (Rejected AbortError))
           | ByTimer \<Rightarrow> (session, Settled (Rejected TimeoutError))
           | NoWinner \<Rightarrow> (session, Unsettled)
           | ByTransport \<Rightarrow>
               (case lr of
                  Reject e \<Rightarrow> (session', Settled (Rejected e))
                | Resolve r \<Rightarrow> (session', Settled (Resolved (Stream r)))
                | Inform code \<Rightarrow> (session', Settled (Resolved (Informational code)))
                | Continue req init' ex' \<Rightarrow> (session', Redirected req init' ex')
                | Ignored \<Rightarrow> (session', Unsettled))))"

text \<open>
  One run of the body of \<^verbatim>\<open>fetchImpl\<close>: \<^verbatim>\<open>setupFetch\<close> with the signal as it is at that
  moment, then the race around \<^verbatim>\<open>doFetch\<close>.
\<close>

definition attempt ::
  "platform \<Rightarrow> hop \<Rightarrow> session \<Rightarrow> request \<Rightarrow> init \<Rightarrow> extra
     \<Rightarrow> session \<times> trace_entry \<times> attempt_result"
where
  "attempt pf h session input init ex =
     (case setupFetch pf (now0 h) (now1 h) session input
             (init\<lparr> signal := signal_now init (aborted_at_setup h) \<rparr>) ex of
        Inl e \<Rightarrow> (session, SetupFailed e, Settled (Rejected e))
      | Inr st \<Rightarrow>
          (case handleSignalAndTimeout pf st init ex h session of
             (session', r) \<Rightarrow> (session', Sent st, r)))"

text \<open>
  \<^verbatim>\<open>fetchImpl\<close> over the attempts that the environment has in store, one per hop. The
  result is \<open>None\<close> when the chain is still redirecting after the last of them, and
  otherwise \<open>Some\<close> of the final session, the trace of the attempts in order and the
  end of the last attempt (\<open>Unsettled\<close>: the promise stays pending).
\<close>

fun fetchImpl ::
  "platform \<Rightarrow> hop list \<Rightarrow> session \<Rightarrow> request \<Rightarrow> init \<Rightarrow> extra
     \<Rightarrow> (session \<times> trace_entry list \<times> attempt_result) option"
where
  "fetchImpl pf [] session input init ex = None"
| "fetchImpl pf (h # hs) session input init ex =
     (case attempt pf h session input init ex of
        (session', entry, Redirected req init' ex') \<Rightarrow>
          (case fetchImpl pf hs session' req init' ex' of
             None \<Rightarrow> None
           | Some (session'', tr, r) \<Rightarrow> Some (session'', entry # tr, r))
      | (session', entry, r) \<Rightarrow> Some (session', [entry], r))"

text \<open>\<^verbatim>\<open>fetch\<close>: the chain starts with no URL visited and no deadline fixed.\<close>

definition fetch ::
  "platform \<Rightarrow> hop list \<Rightarrow> session \<Rightarrow> request \<Rightarrow> init
     \<Rightarrow> (session \<times> trace_entry list \<times> attempt_result) option"
where
  "fetch pf hs session input init =
     fetchImpl pf hs session input init \<lparr> redirected = [], timeoutAt = None \<rparr>"

section \<open>The specification's wording, and concrete inputs\<close>

text \<open>
  The accept-encoding value as the specification words it: the fixed fallback without
  decoders, otherwise every decoder name at quality 1.0, in order, followed by gzip at
  0.8 and deflate at 0.5, the entries separated by a comma and a space.
\<close>

definition acceptEncoding_spec :: "string list \<Rightarrow> string" where
  "acceptEncoding_spec names =
     (if names = [] then ''gzip;q=1.0, deflate;q=0.5''
      else join '', '' (map (\<lambda>n. n @ '';q=1.0'') names @ [''gzip;q=0.8'', ''deflate;q=0.5'']))"

text \<open>
  A platform to evaluate the definitions on: every non-empty URL parses, every location
  except \<^verbatim>\<open>http://[\<close> resolves to itself, the redirect statuses are seven of the 3xx
  codes, and the jar answers with the values stored for the same URL.
\<close>

definition example_platform :: platform where
  "example_platform =
     \<lparr> url_parts =
         (\<lambda>u. if u = [] then None
              else Some \<lparr> origin = u, url_protocol = ''http:'', pathname = ''/'',
                          search = [], hash = [] \<rparr>),
       href = (\<lambda>loc base. if loc = ''http://['' then None else Some loc),
       isRedirectStatus = (\<lambda>c. c \<in> {300, 301, 302, 303, 305, 307, 308}),
       getCookies = (\<lambda>jar u. concat (map fst (filter (\<lambda>e. snd e = u) jar))) \<rparr>"

definition example_session :: session where
  "example_session =
     \<lparr> protocol = Http1, accept = ''*/*'', userAgent = ''fetch-h2'',
       contentDecoders = [\<lparr> decoder_name = ''br'' \<rparr>], cookieJar = [([''a=1''], ''http://a/'')] \<rparr>"

definition get_request :: "string \<Rightarrow> request" where
  "get_request u =
     \<lparr> url = u, req_method = ''GET'', redirect = Follow, integrity = None,
       headers = [(''cookie'', ''b=2''), (''x-test'', ''1'')],
       body_length = None, body_mime = None \<rparr>"

definition post_request :: "string \<Rightarrow> request" where
  "post_request u =
     \<lparr> url = u, req_method = ''POST'', redirect = Follow, integrity = None, headers = [],
       body_length = Some 6, body_mime = Some ''text/plain'' \<rparr>"

definition no_init :: init where
  "no_init = \<lparr> signal = None, onTrailers = None, timeout = None \<rparr>"

definition timed_init :: init where
  "timed_init = \<lparr> signal = None, onTrailers = None, timeout = Some 100 \<rparr>"

definition signal_init :: init where
  "signal_init = \<lparr> signal = Some \<lparr> aborted = False \<rparr>, onTrailers = None, timeout = Some 100 \<rparr>"

definition first_hop :: extra where
  "first_hop = \<lparr> redirected = [], timeoutAt = None \<rparr>"

definition third_hop :: extra where
  "third_hop = \<lparr> redirected = [''http://a/'', ''http://b/''], timeoutAt = None \<rparr>"

definition found :: "string \<Rightarrow> incoming" where
  "found loc =
     \<lparr> statusCode = 302, statusMessage = ''Found'',
       res_headers = [''location'' \<mapsto> Str loc, ''set-cookie'' \<mapsto> Arr [''foo=bar''],
                      ''set-cookie2'' \<mapsto> Str ''old=1''] \<rparr>"

text \<open>
  A 302 sent with two location lines, and a 302 sent without any; both set a cookie.
\<close>

definition found_repeated :: incoming where
  "found_repeated =
     delivered 302 ''Found''
       [(''location'', ''http://b/''), (''set-cookie'', ''foo=bar''), (''location'', ''http://c/'')]"

definition found_nowhere :: incoming where
  "found_nowhere = delivered 302 ''Found'' [(''set-cookie'', ''foo=bar'')]"

definition ok :: incoming where
  "ok = \<lparr> statusCode = 200, statusMessage = ''OK'',
          res_headers = [''set-cookie'' \<mapsto> Arr [''foo=bar''], ''content-type'' \<mapsto> Str ''text/plain''] \<rparr>"

text \<open>
  An attempt set up at time \<open>t0\<close> whose response arrives at time \<open>t1\<close>, with a signal (if
  any) that never fires.
\<close>

definition respond :: "int \<Rightarrow> int \<Rightarrow> incoming \<Rightarrow> hop" where
  "respond t0 t1 res =
     \<lparr> now0 = t0, now1 = t0, aborted_at_setup = False, abort_fires = None,
       arrives = t1, event = ResponseEvent res \<rparr>"

text \<open>The same attempt with a signal that is already aborted when the set-up reads it.\<close>

definition respond_aborted :: "int \<Rightarrow> int \<Rightarrow> incoming \<Rightarrow> hop" where
  "respond_aborted t0 t1 res =
     \<lparr> now0 = t0, now1 = t0, aborted_at_setup = True, abort_fires = None,
       arrives = t1, event = ResponseEvent res \<rparr>"

text \<open>
  An attempt set up at time \<open>t0\<close> whose signal fires at time \<open>ta\<close> and whose response
  arrives at time \<open>t1\<close>.
\<close>

definition respond_after_abort :: "int \<Rightarrow> int \<Rightarrow> int \<Rightarrow> incoming \<Rightarrow> hop" where
  "respond_after_abort t0 ta t1 res =
     \<lparr> now0 = t0, now1 = t0, aborted_at_setup = False, abort_fires = Some ta,
       arrives = t1, event = ResponseEvent res \<rparr>"

text \<open>The server of a two-URL cycle: a redirects to b and b redirects to a.\<close>

definition cycle_hops :: "hop list" where
  "cycle_hops =
     [respond 0 1 (found ''http://b/''), respond 10 11 (found ''http://a/''),
      respond 20 21 (found ''http://b/''), respond 30 31 (found ''http://a/'')]"

text \<open>Two hops of 60 ms each: a redirects to b, and b answers 200.\<close>

definition slow_hops :: "hop list" where
  "slow_hops = [respond 0 60 (found ''http://b/''), respond 60 120 ok]"

definition quick_hops :: "hop list" where
  "quick_hops = [respond 0 10 (found ''http://b/''), respond 10 20 ok]"

lemmas example_defs =
  example_platform_def example_session_def get_request_def post_request_def no_init_def
  timed_init_def signal_init_def first_hop_def found_def ok_def respond_def

lemmas model_defs =
  fetch_def attempt_def setupFetch_def ensureNotCircularRedirection_def pop_def
  chain_deadline_def setupTimeout_def signal_now_def handleSignalAndTimeout_def
  transport_result_def onResponse_def parseLocation_def redirect_driver_def no_location_def
  clone_def race_def no_later_def headersToSend_def required_headers_def cookie_list_def
  headers_has_def headers_get_def acceptEncoding_def setCookies_def Let_def

section \<open>Facts about the definitions\<close>

lemma scan_urls_absent: "l \<notin> set us \<Longrightarrow> scan_urls us (Some l) = Inr ()"
  by (induction us) auto

lemma scan_urls_present:
  "l \<in> set us \<Longrightarrow> scan_urls us (Some l) = Inl (RedirectionLoop (dropWhile (\<lambda>u. u \<noteq> l) us))"
  by (induction us) auto

lemma ensureNotCircularRedirection_eq:
  "ensureNotCircularRedirection rs =
     (if rs \<noteq> [] \<and> last rs \<in> set (butlast rs)
      then Inl (RedirectionLoop (dropWhile (\<lambda>u. u \<noteq> last rs) (butlast rs)))
      else Inr ())"
  by (simp add: ensureNotCircularRedirection_def pop_def scan_urls_absent scan_urls_present)

lemma join_append:
  "xs \<noteq> [] \<Longrightarrow> ys \<noteq> [] \<Longrightarrow> join sep (xs @ ys) = join sep xs @ sep @ join sep ys"
proof (induction sep xs rule: join.induct)
  case (1 sep)
  then show ?case by simp
next
  case (2 sep x)
  then show ?case by (cases ys) simp_all
next
  case (3 sep x y ys)
  then show ?case by simp
qed

lemma acceptEncoding_refines: "acceptEncoding ds = acceptEncoding_spec (map decoder_name ds)"
proof (cases ds)
  case Nil
  then show ?thesis by (simp add: acceptEncoding_def acceptEncoding_spec_def)
next
  case (Cons d ds')
  have "join '', '' (map (\<lambda>n. n @ '';q=1.0'') (map decoder_name ds) @ [''gzip;q=0.8'', ''deflate;q=0.5''])
      = join '', '' (map (\<lambda>n. n @ '';q=1.0'') (map decoder_name ds)) @ '', '' @ join '', '' [''gzip;q=0.8'', ''deflate;q=0.5'']"
    using Cons by (intro join_append) simp_all
  then show ?thesis using Cons
    by (simp add: acceptEncoding_def acceptEncoding_spec_def comp_def)
qed

lemma copy_headers_cookie: "copy_headers p hs h ''cookie'' = h ''cookie''"
  by (induction p hs h rule: copy_headers.induct) simp_all

lemma copy_headers_absent:
  "k \<notin> set (map fst hs) \<Longrightarrow> k \<noteq> '':authority'' \<Longrightarrow> copy_headers p hs h k = h k"
  by (induction p hs h rule: copy_headers.induct) auto

lemma headersToSend_cookie:
  "headersToSend pf session request u ''cookie'' =
     (if cookie_list pf session request = [] then None
      else Some (join ''; '' (cookie_list pf session request)))"
  by (simp add: headersToSend_def Let_def copy_headers_cookie required_headers_def
           split: option.splits)

lemma headersToSend_accept_encoding:
  "\<not> headers_has (headers request) ''accept-encoding'' \<Longrightarrow>
   headersToSend pf session request u ''accept-encoding'' =
     Some (acceptEncoding (contentDecoders session))"
  by (simp add: headersToSend_def Let_def copy_headers_absent headers_has_def
           split: option.splits)

lemma setupFetch_fields:
  assumes "setupFetch pf n0 n1 session input init ex = Inr st"
  shows "s_url st = url input" and "s_method st = req_method input"
    and "s_redirect st = redirect input" and "s_request st = input"
    and "s_redirected st = redirected ex"
    and "s_endStream st = (req_method input = ''GET'' \<or> req_method input = ''HEAD'')"
    and "s_timeoutAt st = chain_deadline n0 init ex"
    and "s_signal st = signal init" and "s_onTrailers st = onTrailers init"
    and "s_signalPromise st = (signal init \<noteq> None)"
    and "s_contentDecoders st = contentDecoders session"
    and "s_integrity st = integrity input"
    and "setupTimeout n1 (chain_deadline n0 init ex) = Inr (s_timeoutInfo st)"
    and "ensureNotCircularRedirection (redirected ex) = Inr ()"
    and "\<exists>u. url_parts pf (url input) = Some u \<and> s_headersToSend st = headersToSend pf session input u"
    and "\<not> (case signal init of Some sg \<Rightarrow> aborted sg | None \<Rightarrow> False)"
  using assms
  by (auto simp: setupFetch_def Let_def split: sum.splits option.splits if_splits)

lemma cleanup_twice: "cleanup (cleanup c) = cleanup c"
  by (simp add: cleanup_def clear_def clearTimeout_def delete_onabort_def Let_def)

lemma cleanup_funpow: "0 < n \<Longrightarrow> (cleanup ^^ n) c = cleanup c"
proof (induction n)
  case 0
  then show ?case by simp
next
  case (Suc n)
  show ?case
  proof (cases "n = 0")
    case True
    then show ?thesis by simp
  next
    case False
    with Suc.IH have "(cleanup ^^ n) c = cleanup c" by simp
    then show ?thesis by (simp add: cleanup_twice)
  qed
qed

lemma cleanup_counts:
  "cancelled (cleanup c) = (if has_timeoutInfo c \<and> timerId c \<and> armed c then Suc (cancelled c) else cancelled c)"
  "detached (cleanup c) = (if has_signal c \<and> onabort c then Suc (detached c) else detached c)"
  "armed (cleanup c) = (armed c \<and> \<not> (has_timeoutInfo c \<and> timerId c))"
  "onabort (cleanup c) = (onabort c \<and> \<not> has_signal c)"
  by (auto simp add: cleanup_def clear_def clearTimeout_def delete_onabort_def Let_def)

lemma onResponse_processed:
  assumes "\<not> (case sg of Some s \<Rightarrow> aborted s | None \<Rightarrow> False)"
      and "parseLocation (href pf) (res_headers res ''location'') (s_url st) = Inr location"
  shows "onResponse pf st ex sg res session =
           ((if truthy (res_headers res ''set-cookie'')
             then session\<lparr> cookieJar := setCookies (arrayify (res_headers res ''set-cookie''))
                                          (s_url st) (cookieJar session) \<rparr>
             else session),
            redirect_driver pf st ex res
              ((res_headers res)(''set-cookie'' := None, ''set-cookie2'' := None)) location)"
  using assms by (simp add: onResponse_def Let_def)

lemma redirect_driver_Resolve:
  assumes "redirect_driver pf st ex res hdrs location = Resolve r"
  shows "r_headers r = hdrs"
    and "r_redirected r = (s_redirect st \<noteq> Manual \<and> redirected ex \<noteq> [])"
    and "r_url r = s_url st" and "r_status r = statusCode res"
    and "\<not> isRedirectStatus pf (statusCode res) \<or> s_redirect st = Manual"
  using assms
  by (auto simp: redirect_driver_def Let_def split: if_splits option.splits)

lemma onResponse_Resolve:
  assumes "onResponse pf st ex sg res session = (session', Resolve r)"
  shows "r_redirected r = (s_redirect st \<noteq> Manual \<and> redirected ex \<noteq> [])"
    and "r_headers r = (res_headers res)(''set-cookie'' := None, ''set-cookie2'' := None)"
  using assms redirect_driver_Resolve[of pf st ex res _ _ r]
  by (auto simp: onResponse_def Let_def split: if_splits sum.splits)

lemma redirect_driver_follow:
  assumes "isRedirectStatus pf (statusCode res)" and "s_redirect st = Follow" and "loc \<noteq> []"
  shows "redirect_driver pf st ex res hdrs (Some loc) =
           (if s_endStream st
            then Continue (clone (s_request st) loc)
                   \<lparr> signal = s_signal st, onTrailers = s_onTrailers st, timeout = None \<rparr>
                   \<lparr> redirected = s_redirected st @ [s_url st], timeoutAt = s_timeoutAt st \<rparr>
            else Reject (RedirectionMethodError (Some loc) (s_method st)))"
  using assms by (simp add: redirect_driver_def no_location_def)

lemma redirect_driver_no_location:
  assumes "isRedirectStatus pf (statusCode res)"
  shows "redirect_driver pf st ex res hdrs None = Reject IllegalRedirect"
  using assms by (simp add: redirect_driver_def no_location_def)

lemma redirect_driver_Continue:
  assumes "redirect_driver pf st ex res hdrs location = Continue req i' e'"
  shows "\<exists>loc. location = Some loc \<and> loc \<noteq> [] \<and> req = clone (s_request st) loc"
    and "i' = \<lparr> signal = s_signal st, onTrailers = s_onTrailers st, timeout = None \<rparr>"
    and "e' = \<lparr> redirected = s_redirected st @ [s_url st], timeoutAt = s_timeoutAt st \<rparr>"
    and "isRedirectStatus pf (statusCode res)" and "s_redirect st \<noteq> Manual" and "s_endStream st"
  using assms
  by (auto simp: redirect_driver_def Let_def split: if_splits option.splits)

lemma onResponse_Continue:
  assumes "onResponse pf st ex sg res session = (session', Continue req i' e')"
  shows "\<exists>loc. req = clone (s_request st) loc"
    and "i' = \<lparr> signal = s_signal st, onTrailers = s_onTrailers st, timeout = None \<rparr>"
    and "e' = \<lparr> redirected = s_redirected st @ [s_url st], timeoutAt = s_timeoutAt st \<rparr>"
    and "s_redirect st \<noteq> Manual"
proof -
  from assms obtain hdrs location where
    rd: "redirect_driver pf st ex res hdrs location = Continue req i' e'"
    by (auto simp: onResponse_def Let_def split: if_splits sum.splits)
  from redirect_driver_Continue(1)[OF rd] show "\<exists>loc. req = clone (s_request st) loc" by blast
  from redirect_driver_Continue(2)[OF rd]
  show "i' = \<lparr> signal = s_signal st, onTrailers = s_onTrailers st, timeout = None \<rparr>" .
  from redirect_driver_Continue(3)[OF rd]
  show "e' = \<lparr> redirected = s_redirected st @ [s_url st], timeoutAt = s_timeoutAt st \<rparr>" .
  from redirect_driver_Continue(5)[OF rd] show "s_redirect st \<noteq> Manual" .
qed

lemma transport_result_Continue:
  assumes "transport_result pf st init ex h session = (session', Continue req i' e')"
  shows "\<exists>res sg. event h = ResponseEvent res \<and>
           onResponse pf st ex sg res session = (session', Continue req i' e')"
  using assms by (auto simp: transport_result_def split: transport_event.splits)

lemma transport_result_Resolve:
  assumes "transport_result pf st init ex h session = (session', Resolve r)"
  shows "\<exists>res sg. event h = ResponseEvent res \<and>
           onResponse pf st ex sg res session = (session', Resolve r)"
  using assms by (auto simp: transport_result_def split: transport_event.splits)

lemma race_ByTransport:
  assumes "race a (Some T) c = ByTransport"
  shows "\<exists>t. c = Some t \<and> t < T"
  using assms
  by (cases c) (auto simp: race_def no_later_def split: if_splits option.splits)

lemma handle_cases:
  assumes "handleSignalAndTimeout pf st init ex h session = (session', r)"
  shows "(\<exists>lr. transport_result pf st init ex h session = (session', lr) \<and>
              race (if s_signalPromise st then abort_fires h else None)
                   (map_option (\<lambda>d. now1 h + d) (s_timeoutInfo st))
                   (case lr of Ignored \<Rightarrow> None | _ \<Rightarrow> Some (arrives h)) = ByTransport \<and>
              (case lr of
                 Reject e \<Rightarrow> r = Settled (Rejected e)
               | Resolve x \<Rightarrow> r = Settled (Resolved (Stream x))
               | Inform code \<Rightarrow> r = Settled (Resolved (Informational code))
               | Continue req i' e' \<Rightarrow> r = Redirected req i' e'
               | Ignored \<Rightarrow> r = Unsettled))
         \<or> (session' = session \<and>
             (r = Settled (Rejected AbortError) \<or> r = Settled (Rejected TimeoutError) \<or> r = Unsettled))"
  using assms
  by (auto simp: handleSignalAndTimeout_def split: prod.splits winner.splits listener_result.splits)

lemma attempt_Sent:
  assumes "attempt pf h session input init ex = (session', Sent st, r)"
  shows "setupFetch pf (now0 h) (now1 h) session input
           (init\<lparr> signal := signal_now init (aborted_at_setup h) \<rparr>) ex = Inr st"
    and "handleSignalAndTimeout pf st init ex h session = (session', r)"
  using assms by (auto simp: attempt_def split: sum.splits prod.splits)

lemma attempt_SetupFailed:
  assumes "attempt pf h session input init ex = (session', SetupFailed e, r)"
  shows "setupFetch pf (now0 h) (now1 h) session input
           (init\<lparr> signal := signal_now init (aborted_at_setup h) \<rparr>) ex = Inl e"
    and "session' = session" and "r = Settled (Rejected e)"
  using assms by (auto simp: attempt_def split: sum.splits prod.splits)

lemma attempt_Redirected:
  assumes "attempt pf h session input init ex = (session', entry, Redirected req i' e')"
  shows "\<exists>st. entry = Sent st \<and>
           setupFetch pf (now0 h) (now1 h) session input
             (init\<lparr> signal := signal_now init (aborted_at_setup h) \<rparr>) ex = Inr st \<and>
           (\<exists>res sg. event h = ResponseEvent res \<and>
              onResponse pf st ex sg res session = (session', Continue req i' e')) \<and>
           race (if s_signalPromise st then abort_fires h else None)
                (map_option (\<lambda>d. now1 h + d) (s_timeoutInfo st)) (Some (arrives h)) = ByTransport"
proof (cases entry)
  case (SetupFailed e)
  with assms attempt_SetupFailed(3)[of pf h session input init ex session' e] show ?thesis by simp
next
  case (Sent st)
  note a = attempt_Sent[OF assms[unfolded Sent]]
  from handle_cases[OF a(2)] obtain lr where
    lr: "transport_result pf st init ex h session = (session', lr)"
    and rc: "race (if s_signalPromise st then abort_fires h else None)
                   (map_option (\<lambda>d. now1 h + d) (s_timeoutInfo st))
                   (case lr of Ignored \<Rightarrow> None | _ \<Rightarrow> Some (arrives h)) = ByTransport"
    and c: "(case lr of
                 Reject e \<Rightarrow> Redirected req i' e' = Settled (Rejected e)
               | Resolve x \<Rightarrow> Redirected req i' e' = Settled (Resolved (Stream x))
               | Inform code \<Rightarrow> Redirected req i' e' = Settled (Resolved (Informational code))
               | Continue req2 i2 e2 \<Rightarrow> Redirected req i' e' = Redirected req2 i2 e2
               | Ignored \<Rightarrow> Redirected req i' e' = Unsettled)"
    by auto
  from c have lr_eq: "lr = Continue req i' e'" by (cases lr) auto
  from transport_result_Continue[OF lr[unfolded lr_eq]] rc a(1) Sent lr_eq
  show ?thesis by auto
qed

lemma chain_deadline_signal [simp]:
  "chain_deadline n0 (init\<lparr> signal := x \<rparr>) ex = chain_deadline n0 init ex"
  by (simp add: chain_deadline_def split: option.splits)

lemma chain_deadline_carried:
  "T \<noteq> 0 \<Longrightarrow> timeoutAt ex = Some T \<Longrightarrow> chain_deadline n0 init ex = Some T"
  by (simp add: chain_deadline_def)

lemma setupFetch_deadline:
  assumes "setupFetch pf n0 n1 session input init ex = Inr st"
      and "chain_deadline n0 init ex = Some T" and "T \<noteq> 0"
  shows "s_timeoutAt st = Some T" and "s_timeoutInfo st = Some (T - n1)" and "n1 < T"
  using assms setupFetch_fields(7,13)[OF assms(1)]
  by (auto simp: setupTimeout_def split: if_splits)

lemma setupFetch_late:
  assumes "chain_deadline n0 init ex = Some T" and "T \<noteq> 0" and "T \<le> n1"
  shows "\<exists>e. setupFetch pf n0 n1 session input init ex = Inl e \<and>
             (e = TimeoutError \<or> e = InvalidURL \<or> (\<exists>us. e = RedirectionLoop us))"
  using assms
  by (auto simp: setupFetch_def setupTimeout_def ensureNotCircularRedirection_eq Let_def
           split: sum.splits option.splits)

lemma race_late_winner:
  assumes "T \<le> t"
  shows "race a (Some T) (Some t) = (if \<exists>x. a = Some x \<and> x \<le> T then BySignal else ByTimer)"
    and "race a (Some T) None = (if \<exists>x. a = Some x \<and> x \<le> T then BySignal else ByTimer)"
  using assms by (auto simp: race_def no_later_def split: option.splits)

lemma handle_late:
  assumes "handleSignalAndTimeout pf st init ex h session = (session', r)"
      and "s_timeoutInfo st = Some (T - now1 h)" and "T \<le> arrives h"
  shows "r = Settled (Rejected (if s_signalPromise st \<and> (\<exists>a. abort_fires h = Some a \<and> a \<le> T)
                                then AbortError else TimeoutError))"
proof -
  obtain s2 lr where lr: "transport_result pf st init ex h session = (s2, lr)"
    by (cases "transport_result pf st init ex h session")
  let ?c = "(case lr of Ignored \<Rightarrow> None | _ \<Rightarrow> Some (arrives h))"
  have c: "?c = None \<or> ?c = Some (arrives h)" by (cases lr) auto
  let ?a = "(if s_signalPromise st then abort_fires h else None)"
  have "race ?a (Some T) ?c = (if \<exists>x. ?a = Some x \<and> x \<le> T then BySignal else ByTimer)"
    using c race_late_winner[OF assms(3), of ?a] by metis
  then show ?thesis
    using assms(1,2) lr by (auto simp: handleSignalAndTimeout_def split: if_splits)
qed

lemma attempt_deadline:
  assumes att: "attempt pf h session input init ex = (session', entry, r)"
      and dl: "chain_deadline (now0 h) init ex = Some T" and nz: "T \<noteq> 0"
  shows "entry = Sent st \<Longrightarrow>
           s_timeoutAt st = Some T \<and> s_timeoutInfo st = Some (T - now1 h) \<and> now1 h < T"
    and "r = Redirected req i' e' \<Longrightarrow>
           timeoutAt e' = Some T \<and> timeout i' = None \<and> (signal i' = None \<longleftrightarrow> signal init = None)
           \<and> arrives h < T"
    and "T \<le> now1 h \<Longrightarrow>
           \<exists>e. entry = SetupFailed e \<and> r = Settled (Rejected e) \<and>
               (e = TimeoutError \<or> e = InvalidURL \<or> (\<exists>us. e = RedirectionLoop us))"
    and "T \<le> arrives h \<Longrightarrow> \<exists>e. r = Settled (Rejected e)"
    and "T \<le> arrives h \<Longrightarrow> entry = Sent st \<Longrightarrow>
           r = Settled (Rejected (if signal init \<noteq> None \<and> (\<exists>a. abort_fires h = Some a \<and> a \<le> T)
                                  then AbortError else TimeoutError))"
proof -
  let ?init = "init\<lparr> signal := signal_now init (aborted_at_setup h) \<rparr>"
  have dl': "chain_deadline (now0 h) ?init ex = Some T" using dl by simp
  have sent: "s_timeoutAt st = Some T \<and> s_timeoutInfo st = Some (T - now1 h) \<and> now1 h < T
              \<and> s_signal st = signal ?init \<and> s_signalPromise st = (signal ?init \<noteq> None)
              \<and> handleSignalAndTimeout pf st init ex h session = (session', r)"
    if "entry = Sent st" for st
  proof -
    note a = attempt_Sent[OF att[unfolded that]]
    from setupFetch_deadline[OF a(1) dl' nz] setupFetch_fields(8,10)[OF a(1)] a(2)
    show ?thesis by simp
  qed
  show "entry = Sent st \<Longrightarrow>
           s_timeoutAt st = Some T \<and> s_timeoutInfo st = Some (T - now1 h) \<and> now1 h < T"
    using sent by simp
  show "r = Redirected req i' e' \<Longrightarrow>
           timeoutAt e' = Some T \<and> timeout i' = None \<and> (signal i' = None \<longleftrightarrow> signal init = None)
           \<and> arrives h < T"
  proof -
    assume r: "r = Redirected req i' e'"
    from attempt_Redirected[OF att[unfolded r]] obtain st2 res sg where
      e: "entry = Sent st2"
      and on: "onResponse pf st2 ex sg res session = (session', Continue req i' e')"
      and rc: "race (if s_signalPromise st2 then abort_fires h else None)
                (map_option (\<lambda>d. now1 h + d) (s_timeoutInfo st2)) (Some (arrives h)) = ByTransport"
      by blast
    from sent[OF e] have s: "s_timeoutAt st2 = Some T" "s_timeoutInfo st2 = Some (T - now1 h)"
      "s_signal st2 = signal ?init" by simp_all
    from rc s(2) have "arrives h < T" using race_ByTransport by fastforce
    moreover from onResponse_Continue(2,3)[OF on] s
    have "timeoutAt e' = Some T" "timeout i' = None" "signal i' = None \<longleftrightarrow> signal init = None"
      by (simp_all add: signal_now_def)
    ultimately show ?thesis by simp
  qed
  show "T \<le> now1 h \<Longrightarrow>
           \<exists>e. entry = SetupFailed e \<and> r = Settled (Rejected e) \<and>
               (e = TimeoutError \<or> e = InvalidURL \<or> (\<exists>us. e = RedirectionLoop us))"
  proof -
    assume "T \<le> now1 h"
    from setupFetch_late[OF dl' nz this, of pf session input] att
    show ?thesis by (auto simp: attempt_def)
  qed
  show "T \<le> arrives h \<Longrightarrow> \<exists>e. r = Settled (Rejected e)"
  proof (cases entry)
    case (SetupFailed e)
    with attempt_SetupFailed(3)[OF att[unfolded SetupFailed]] show ?thesis by simp
  next
    case (Sent st2)
    assume late: "T \<le> arrives h"
    from sent[OF Sent] have "s_timeoutInfo st2 = Some (T - now1 h)"
      "handleSignalAndTimeout pf st2 init ex h session = (session', r)" by simp_all
    from handle_late[OF this(2,1) late] show ?thesis by blast
  qed
  show "T \<le> arrives h \<Longrightarrow> entry = Sent st \<Longrightarrow>
           r = Settled (Rejected (if signal init \<noteq> None \<and> (\<exists>a. abort_fires h = Some a \<and> a \<le> T)
                                  then AbortError else TimeoutError))"
  proof -
    assume late: "T \<le> arrives h" and e: "entry = Sent st"
    from sent[OF e] have "s_timeoutInfo st = Some (T - now1 h)"
      "handleSignalAndTimeout pf st init ex h session = (session', r)"
      "s_signalPromise st = (signal init \<noteq> None)"
      by (simp_all add: signal_now_def)
    from handle_late[OF this(2,1) late] this(3) show ?thesis by simp
  qed
qed

lemma fetchImpl_Cons_cases:
  assumes "fetchImpl pf (h # hs) session input init ex = Some (session', tr, r)"
  obtains (redirected) s1 entry req i' e' tr'
    where "attempt pf h session input init ex = (s1, entry, Redirected req i' e')"
      and "fetchImpl pf hs s1 req i' e' = Some (session', tr', r)" and "tr = entry # tr'"
  | (ended) entry
    where "attempt pf h session input init ex = (session', entry, r)"
      and "tr = [entry]" and "\<And>req i' e'. r \<noteq> Redirected req i' e'"
proof -
  obtain s1 entry r1 where a: "attempt pf h session input init ex = (s1, entry, r1)"
    by (cases "attempt pf h session input init ex") auto
  show thesis
  proof (cases r1)
    case (Redirected req i' e')
    with assms a obtain tr' where
      "fetchImpl pf hs s1 req i' e' = Some (session', tr', r)" "tr = entry # tr'"
      by (auto split: option.splits)
    with a Redirected show thesis using redirected by blast
  next
    case (Settled x)
    with assms a show thesis using ended by auto
  next
    case Unsettled
    with assms a show thesis using ended by auto
  qed
qed

lemma attempt_redirect_state:
  assumes "attempt pf h session input init ex = (session', entry, Redirected req i' e')"
  shows "redirect req = redirect input" and "redirected e' = redirected ex @ [url input]"
    and "redirect input \<noteq> Manual"
proof -
  from attempt_Redirected[OF assms] obtain st res sg where
    su: "setupFetch pf (now0 h) (now1 h) session input
             (init\<lparr> signal := signal_now init (aborted_at_setup h) \<rparr>) ex = Inr st"
    and on: "onResponse pf st ex sg res session = (session', Continue req i' e')"
    by blast
  note f = setupFetch_fields(1,3,4,5)[OF su]
  from onResponse_Continue(1,3,4)[OF on] f
  show "redirect req = redirect input" "redirected e' = redirected ex @ [url input]"
    "redirect input \<noteq> Manual"
    by (auto simp: clone_def)
qed

lemma attempt_Resolved_flag:
  assumes "attempt pf h session input init ex = (session', entry, Settled (Resolved (Stream x)))"
  shows "r_redirected x = (redirect input \<noteq> Manual \<and> redirected ex \<noteq> [])"
proof (cases entry)
  case (SetupFailed e)
  with assms attempt_SetupFailed(3)[of pf h session input init ex session' e] show ?thesis by simp
next
  case (Sent st)
  note a = attempt_Sent[OF assms[unfolded Sent]]
  from handle_cases[OF a(2)] obtain lr where
    lr: "transport_result pf st init ex h session = (session', lr)"
    and c: "(case lr of
                 Reject e \<Rightarrow> Settled (Resolved (Stream x)) = Settled (Rejected e)
               | Resolve y \<Rightarrow> Settled (Resolved (Stream x)) = Settled (Resolved (Stream y))
               | Inform code \<Rightarrow> Settled (Resolved (Stream x)) = Settled (Resolved (Informational code))
               | Continue req2 i2 e2 \<Rightarrow> Settled (Resolved (Stream x)) = Redirected req2 i2 e2
               | Ignored \<Rightarrow> Settled (Resolved (Stream x)) = Unsettled)"
    by auto
  from c have "lr = Resolve x" by (cases lr) auto
  with transport_result_Resolve lr obtain res sg where
    "onResponse pf st ex sg res session = (session', Resolve x)" by blast
  from onResponse_Resolve(1)[OF this] setupFetch_fields(3)[OF a(1)] show ?thesis by simp
qed

lemma chain_redirected_flag:
  assumes "fetchImpl pf hs session input init ex = Some (session', tr, Settled (Resolved (Stream x)))"
  shows "r_redirected x = (redirect input \<noteq> Manual \<and> length (redirected ex) + length tr > 1)"
  using assms
proof (induction hs arbitrary: session input init ex tr)
  case Nil
  then show ?case by simp
next
  case (Cons h hs)
  from Cons.prems show ?case
  proof (cases rule: fetchImpl_Cons_cases)
    case (redirected s1 entry req i' e' tr')
    note st = attempt_redirect_state[OF redirected(1)]
    from Cons.IH[OF redirected(2)] st redirected(3) show ?thesis by auto
  next
    case (ended entry)
    from attempt_Resolved_flag[OF ended(1)] ended(2) show ?thesis by (cases "redirected ex") auto
  qed
qed

section \<open>The claims\<close>

text \<open>
  C1. The claim: when the URL that a hop is about to visit already occurs in the list of
  visited URLs, the call fails with the redirection-loop error and the hop's network
  operation is not performed. The check of the code pops the last visited URL and looks
  for it among the earlier ones; the URL of the hop itself is not compared. In the chain
  a, b, a, b the third hop has visited a and b and is about to visit a: the check passes
  and a is requested a second time (and the call would end with that response if a
  answered). Only the fourth hop fails, with the loop a, b attached.
\<close>

theorem revisited_url_is_requested_again:
  "ensureNotCircularRedirection (redirected third_hop) = Inr ()
   \<and> map_option (sent_urls \<circ> fst \<circ> snd)
        (fetchImpl example_platform [respond 20 21 ok] example_session
           (get_request ''http://a/'') no_init third_hop) = Some [''http://a/'']
   \<and> map_option (sent_urls \<circ> fst \<circ> snd)
        (fetch example_platform cycle_hops example_session (get_request ''http://a/'') no_init)
       = Some [''http://a/'', ''http://b/'', ''http://a/'']
   \<and> map_option (snd \<circ> snd)
        (fetch example_platform cycle_hops example_session (get_request ''http://a/'') no_init)
       = Some (Settled (Rejected (RedirectionLoop [''http://a/'', ''http://b/''])))"
  by (simp add: model_defs example_defs third_hop_def cycle_hops_def)

text \<open>
  C2. Once a chain has a deadline \<open>T\<close> (fixed by the first attempt from its clock and the
  configured timeout, or handed in through \<open>extra\<close>), every attempt of the chain that gets
  through \<^verbatim>\<open>setupFetch\<close> runs with \<open>timeoutAt = T\<close> and a timer of \<open>T - now\<close>, so it was set
  up before \<open>T\<close>. An attempt set up at or after \<open>T\<close> throws in \<^verbatim>\<open>setupFetch\<close> and ends the call
  (with \<open>TimeoutError\<close> unless the loop check or the URL parser threw first). An attempt
  whose transport event arrives at or after \<open>T\<close> ends the call with \<open>TimeoutError\<close>, with
  or without a signal, the one exception being a signal that has fired by \<open>T\<close>, which
  ends it with \<open>AbortError\<close>. How long the single hops took does not enter.
\<close>

theorem chain_deadline_kept:
  assumes "fetchImpl pf hs session input init ex = Some (session', tr, r)"
      and "chain_deadline (now0 (hd hs)) init ex = Some T" and "T \<noteq> 0"
  shows "\<forall>(h, entry) \<in> set (zip hs tr).
           (\<forall>st. entry = Sent st \<longrightarrow>
              s_timeoutAt st = Some T \<and> s_timeoutInfo st = Some (T - now1 h) \<and> now1 h < T)
         \<and> (T \<le> now1 h \<longrightarrow>
              (\<exists>e. entry = SetupFailed e \<and> r = Settled (Rejected e) \<and>
                   (e = TimeoutError \<or> e = InvalidURL \<or> (\<exists>us. e = RedirectionLoop us))))
         \<and> (T \<le> arrives h \<longrightarrow>
              (\<exists>e. r = Settled (Rejected e)) \<and>
              ((\<exists>st. entry = Sent st) \<longrightarrow>
                 r = Settled (Rejected
                       (if signal init \<noteq> None \<and> (\<exists>a. abort_fires h = Some a \<and> a \<le> T)
                        then AbortError else TimeoutError))))"
  using assms
proof (induction hs arbitrary: session input init ex tr)
  case Nil
  then show ?case by simp
next
  case (Cons h hs)
  from Cons.prems(2) have dl: "chain_deadline (now0 h) init ex = Some T" by simp
  note nz = Cons.prems(3)
  from Cons.prems(1) show ?case
  proof (cases rule: fetchImpl_Cons_cases)
    case (redirected s1 entry req i' e' tr')
    note ad = attempt_deadline[OF redirected(1) dl nz]
    from ad(2)[OF refl] have carried: "timeoutAt e' = Some T" "signal i' = None \<longleftrightarrow> signal init = None"
      "arrives h < T" by simp_all
    have "\<not> T \<le> now1 h" using ad(3) by auto
    with ad(1) carried(3)
    have head: "(\<forall>st. entry = Sent st \<longrightarrow>
              s_timeoutAt st = Some T \<and> s_timeoutInfo st = Some (T - now1 h) \<and> now1 h < T)
         \<and> (T \<le> now1 h \<longrightarrow>
              (\<exists>e. entry = SetupFailed e \<and> r = Settled (Rejected e) \<and>
                   (e = TimeoutError \<or> e = InvalidURL \<or> (\<exists>us. e = RedirectionLoop us))))
         \<and> (T \<le> arrives h \<longrightarrow>
              (\<exists>e. r = Settled (Rejected e)) \<and>
              ((\<exists>st. entry = Sent st) \<longrightarrow>
                 r = Settled (Rejected
                       (if signal init \<noteq> None \<and> (\<exists>a. abort_fires h = Some a \<and> a \<le> T)
                        then AbortError else TimeoutError))))"
      by auto
    have "chain_deadline (now0 (hd hs)) i' e' = Some T"
      using chain_deadline_carried[OF nz carried(1)] .
    from Cons.IH[OF redirected(2) this nz] carried(2) head redirected(3)
    show ?thesis by auto
  next
    case (ended entry)
    note ad = attempt_deadline[OF ended(1) dl nz]
    from ad(1,3,4,5) ended(2) show ?thesis by auto
  qed
qed

theorem chain_deadline_kept_witness:
  "chain_deadline (now0 (hd slow_hops)) signal_init first_hop = Some 100
   \<and> (100 :: int) \<noteq> 0
   \<and> signal signal_init \<noteq> None
   \<and> set (map abort_fires slow_hops) = {None}
   \<and> set (map (\<lambda>h. arrives h - now1 h) slow_hops) = {60}
   \<and> map_option (snd \<circ> snd)
        (fetchImpl example_platform slow_hops example_session (get_request ''http://a/'')
           signal_init first_hop) = Some (Settled (Rejected TimeoutError))"
proof -
  let ?run = "fetchImpl example_platform slow_hops example_session (get_request ''http://a/'')
                signal_init first_hop"
  have "?run \<noteq> None"
    by (simp add: model_defs example_defs slow_hops_def)
  then obtain s tr r where run: "?run = Some (s, tr, r)"
    by auto
  have dl: "chain_deadline (now0 (hd slow_hops)) signal_init first_hop = Some 100"
    by (simp add: model_defs example_defs slow_hops_def)
  have "length (fst (snd (the ?run))) = 2" and "\<exists>st. fst (snd (the ?run)) ! 1 = Sent st"
    by (simp_all add: model_defs example_defs slow_hops_def)
  with run have len: "length tr = 2" and sent: "\<exists>st. tr ! 1 = Sent st"
    by simp_all
  have "(slow_hops ! 1, tr ! 1) \<in> set (zip slow_hops tr)"
    using len by (simp add: in_set_zip slow_hops_def) (rule exI[of _ 1], simp)
  with chain_deadline_kept[OF run dl] sent
  have "r = Settled (Rejected TimeoutError)"
    by (auto simp: slow_hops_def respond_def signal_init_def)
  with run dl show ?thesis
    by (simp add: slow_hops_def respond_def signal_init_def)
qed

lemma redirect_driver_not_Ignored: "redirect_driver pf st ex res hdrs location \<noteq> Ignored"
  by (simp add: redirect_driver_def Let_def split: option.splits)

lemma race_transport_first:
  assumes "\<forall>a. ts = Some a \<longrightarrow> t < a" and "\<forall>x. tt = Some x \<longrightarrow> t < x"
  shows "race ts tt (Some t) = ByTransport"
  using assms by (auto simp: race_def no_later_def split: option.splits)

lemma fetchImpl_ended:
  assumes "attempt pf h session input init ex = (s2, entry2, r2)"
      and "\<forall>q i e. r2 \<noteq> Redirected q i e"
  shows "fetchImpl pf (h # hs) session input init ex = Some (s2, [entry2], r2)"
  using assms by (cases r2) simp_all

text \<open>
  An attempt whose response arrives before the signal (if any) fires and before the timer
  (if any): the listener evaluates the response and its verdict is the end of the attempt.
\<close>

lemma attempt_on_response:
  assumes su: "setupFetch pf (now0 h) (now1 h) session input
                 (init\<lparr> signal := signal_now init (aborted_at_setup h) \<rparr>) ex = Inr st"
      and ev: "event h = ResponseEvent res"
      and sg: "signal init \<noteq> None \<longrightarrow> (\<forall>a. abort_fires h = Some a \<longrightarrow> arrives h < a)"
      and tm: "\<forall>d. s_timeoutInfo st = Some d \<longrightarrow> arrives h < now1 h + d"
      and loc: "parseLocation (href pf) (res_headers res ''location'') (url input) = Inr location"
  shows "attempt pf h session input init ex =
           ((if truthy (res_headers res ''set-cookie'')
             then session\<lparr> cookieJar := setCookies (arrayify (res_headers res ''set-cookie''))
                                          (url input) (cookieJar session) \<rparr>
             else session),
            Sent st,
            (case redirect_driver pf st ex res
                    ((res_headers res)(''set-cookie'' := None, ''set-cookie2'' := None)) location of
               Reject e \<Rightarrow> Settled (Rejected e)
             | Resolve r \<Rightarrow> Settled (Resolved (Stream r))
             | Inform code \<Rightarrow> Settled (Resolved (Informational code))
             | Continue q i e \<Rightarrow> Redirected q i e
             | Ignored \<Rightarrow> Unsettled))"
proof -
  note f = setupFetch_fields[OF su]
  let ?sg = "signal_now init (case abort_fires h of Some a \<Rightarrow> a \<le> arrives h | None \<Rightarrow> False)"
  let ?session' = "(if truthy (res_headers res ''set-cookie'')
             then session\<lparr> cookieJar := setCookies (arrayify (res_headers res ''set-cookie''))
                                          (url input) (cookieJar session) \<rparr>
             else session)"
  let ?lr = "redirect_driver pf st ex res
               ((res_headers res)(''set-cookie'' := None, ''set-cookie2'' := None)) location"
  have na: "\<not> (case ?sg of Some s \<Rightarrow> aborted s | None \<Rightarrow> False)"
    using sg by (cases "signal init"; cases "abort_fires h") (auto simp: signal_now_def)
  have loc': "parseLocation (href pf) (res_headers res ''location'') (s_url st) = Inr location"
    using loc f(1) by simp
  have tr: "transport_result pf st init ex h session = (?session', ?lr)"
    using onResponse_processed[OF na loc', of ex session] ev f(1)
    by (simp add: transport_result_def)
  have ni: "?lr \<noteq> Ignored" by (rule redirect_driver_not_Ignored)
  then have tt: "(case ?lr of Ignored \<Rightarrow> None | _ \<Rightarrow> Some (arrives h)) = Some (arrives h)"
    by (cases ?lr) simp_all
  have "\<forall>a. (if s_signalPromise st then abort_fires h else None) = Some a \<longrightarrow> arrives h < a"
    using sg f(10) by (auto simp: signal_now_def)
  moreover have "\<forall>x. map_option (\<lambda>d. now1 h + d) (s_timeoutInfo st) = Some x \<longrightarrow> arrives h < x"
    using tm by auto
  ultimately have rc: "race (if s_signalPromise st then abort_fires h else None)
                     (map_option (\<lambda>d. now1 h + d) (s_timeoutInfo st)) (Some (arrives h)) = ByTransport"
    by (rule race_transport_first)
  have "handleSignalAndTimeout pf st init ex h session =
          (?session',
           (case ?lr of
               Reject e \<Rightarrow> Settled (Rejected e)
             | Resolve r \<Rightarrow> Settled (Resolved (Stream r))
             | Inform code \<Rightarrow> Settled (Resolved (Informational code))
             | Continue q i e \<Rightarrow> Redirected q i e
             | Ignored \<Rightarrow> Unsettled))"
    unfolding handleSignalAndTimeout_def tr using rc tt
    by (cases ?lr) (simp_all del: fun_upd_apply)
  then show ?thesis
    using su by (simp add: attempt_def del: fun_upd_apply)
qed

text \<open>
  C3, as the code has it. Take an attempt under the policy \<open>Follow\<close> whose response has a
  redirect status and a location that resolves to a non-empty URL \<open>loc\<close>, and let the
  response settle the attempt: it arrives before the signal (if one was supplied) fires
  and before the timer (if one was armed). If the method is neither GET nor HEAD, the call
  ends there, rejected with \<open>RedirectionMethodError loc method\<close>, after one network
  operation. If the method is GET or HEAD, \<^verbatim>\<open>fetchImpl\<close> goes on with the request cloned
  to \<open>loc\<close>, the same signal and trailer callback, the visited list extended by the current
  URL and the deadline of the chain, on the session with the cookies of the response
  stored: the result of the call is the result of that run, and the next attempt, if it
  gets through its set-up, sends its request for \<open>loc\<close> with the same method.
\<close>

theorem follow_redirect_by_method:
  assumes "setupFetch pf (now0 h) (now1 h) session input
             (init\<lparr> signal := signal_now init (aborted_at_setup h) \<rparr>) ex = Inr st"
      and "redirect input = Follow"
      and "event h = ResponseEvent res"
      and "isRedirectStatus pf (statusCode res)"
      and "parseLocation (href pf) (res_headers res ''location'') (url input) = Inr (Some loc)"
      and "loc \<noteq> []"
      and "signal init \<noteq> None \<longrightarrow> (\<forall>a. abort_fires h = Some a \<longrightarrow> arrives h < a)"
      and "\<forall>d. s_timeoutInfo st = Some d \<longrightarrow> arrives h < now1 h + d"
  shows
    "(let session' =
            (if truthy (res_headers res ''set-cookie'')
             then session\<lparr> cookieJar := setCookies (arrayify (res_headers res ''set-cookie''))
                                          (url input) (cookieJar session) \<rparr>
             else session);
          init' = \<lparr> signal = signal_now init (aborted_at_setup h),
                    onTrailers = onTrailers init, timeout = None \<rparr>;
          ex' = \<lparr> redirected = redirected ex @ [url input],
                  timeoutAt = chain_deadline (now0 h) init ex \<rparr>
      in
        (\<not> (req_method input = ''GET'' \<or> req_method input = ''HEAD'') \<longrightarrow>
           fetchImpl pf (h # hs) session input init ex =
             Some (session', [Sent st],
                   Settled (Rejected (RedirectionMethodError (Some loc) (req_method input)))))
      \<and> (req_method input = ''GET'' \<or> req_method input = ''HEAD'' \<longrightarrow>
           fetchImpl pf (h # hs) session input init ex =
             (case fetchImpl pf hs session' (clone input loc) init' ex' of
                None \<Rightarrow> None
              | Some (s'', tr, r) \<Rightarrow> Some (s'', Sent st # tr, r))
         \<and> (\<forall>h2 hs2 s2 entry2 r2.
               hs = h2 # hs2
               \<and> attempt pf h2 session' (clone input loc) init' ex' = (s2, entry2, r2)
               \<and> (\<forall>q i e. r2 \<noteq> Redirected q i e) \<longrightarrow>
               fetchImpl pf (h # hs) session input init ex = Some (s2, [Sent st, entry2], r2)
               \<and> (\<forall>st2. entry2 = Sent st2 \<longrightarrow>
                     s_url st2 = loc \<and> s_method st2 = req_method input
                     \<and> s_redirected st2 = redirected ex @ [url input]))))"
proof -
  note f = setupFetch_fields[OF assms(1)]
  let ?session' = "(if truthy (res_headers res ''set-cookie'')
             then session\<lparr> cookieJar := setCookies (arrayify (res_headers res ''set-cookie''))
                                          (url input) (cookieJar session) \<rparr>
             else session)"
  let ?init' = "\<lparr> signal = signal_now init (aborted_at_setup h),
                    onTrailers = onTrailers init, timeout = None \<rparr>"
  let ?ex' = "\<lparr> redirected = redirected ex @ [url input],
                  timeoutAt = chain_deadline (now0 h) init ex \<rparr>"
  let ?gh = "req_method input = ''GET'' \<or> req_method input = ''HEAD''"
  have rd: "redirect_driver pf st ex res
              ((res_headers res)(''set-cookie'' := None, ''set-cookie2'' := None)) (Some loc)
            = (if ?gh then Continue (clone input loc) ?init' ?ex'
               else Reject (RedirectionMethodError (Some loc) (req_method input)))"
    using redirect_driver_follow[OF assms(4) _ assms(6), of st ex] assms(2) f(1-9)
    by simp
  note att = attempt_on_response[OF assms(1,3,7,8,5), unfolded rd]
  have post: "fetchImpl pf (h # hs) session input init ex =
             Some (?session', [Sent st],
                   Settled (Rejected (RedirectionMethodError (Some loc) (req_method input))))"
    if "\<not> ?gh"
    using att that by simp
  have get: "fetchImpl pf (h # hs) session input init ex =
             (case fetchImpl pf hs ?session' (clone input loc) ?init' ?ex' of
                None \<Rightarrow> None
              | Some (s'', tr, r) \<Rightarrow> Some (s'', Sent st # tr, r))"
    if ?gh
    using att that by simp
  have nxt: "fetchImpl pf (h # hs) session input init ex = Some (s2, [Sent st, entry2], r2)
               \<and> (\<forall>st2. entry2 = Sent st2 \<longrightarrow>
                     s_url st2 = loc \<and> s_method st2 = req_method input
                     \<and> s_redirected st2 = redirected ex @ [url input])"
    if gh: ?gh and hs: "hs = h2 # hs2"
      and a2: "attempt pf h2 ?session' (clone input loc) ?init' ?ex' = (s2, entry2, r2)"
      and nr: "\<forall>q i e. r2 \<noteq> Redirected q i e"
    for h2 hs2 s2 entry2 r2
  proof
    from fetchImpl_ended[OF a2 nr, of hs2] get[OF gh] hs
    show "fetchImpl pf (h # hs) session input init ex = Some (s2, [Sent st, entry2], r2)"
      by simp
    show "\<forall>st2. entry2 = Sent st2 \<longrightarrow>
            s_url st2 = loc \<and> s_method st2 = req_method input
            \<and> s_redirected st2 = redirected ex @ [url input]"
    proof (intro allI impI)
      fix st2 assume "entry2 = Sent st2"
      from attempt_Sent(1)[OF a2[unfolded this]]
      have "setupFetch pf (now0 h2) (now1 h2) ?session' (clone input loc)
              (?init'\<lparr> signal := signal_now ?init' (aborted_at_setup h2) \<rparr>) ?ex' = Inr st2" .
      from setupFetch_fields(1,2,5)[OF this]
      show "s_url st2 = loc \<and> s_method st2 = req_method input
            \<and> s_redirected st2 = redirected ex @ [url input]"
        by (simp add: clone_def)
    qed
  qed
  show ?thesis
    unfolding Let_def using post get nxt by blast
qed

theorem follow_redirect_by_method_witness:
  "redirect (post_request ''http://a/'') = Follow
   \<and> isRedirectStatus example_platform (statusCode (found ''http://b/''))
   \<and> parseLocation (href example_platform) (res_headers (found ''http://b/'') ''location'')
        ''http://a/'' = Inr (Some ''http://b/'')
   \<and> map_option (snd \<circ> snd)
        (fetchImpl example_platform [respond 0 10 (found ''http://b/'')] example_session
           (post_request ''http://a/'') timed_init first_hop)
       = Some (Settled (Rejected (RedirectionMethodError (Some ''http://b/'') ''POST'')))
   \<and> map_option (sent_urls \<circ> fst \<circ> snd)
        (fetchImpl example_platform [respond 0 10 (found ''http://b/''), respond 10 20 ok]
           example_session (get_request ''http://a/'') timed_init first_hop)
       = Some [''http://a/'', ''http://b/'']"
proof -
  let ?h = "respond 0 10 (found ''http://b/'')"
  let ?h2 = "respond 10 20 ok"
  let ?init = "timed_init\<lparr> signal := signal_now timed_init (aborted_at_setup ?h) \<rparr>"
  let ?post = "setupFetch example_platform (now0 ?h) (now1 ?h) example_session
                 (post_request ''http://a/'') ?init first_hop"
  let ?get = "setupFetch example_platform (now0 ?h) (now1 ?h) example_session
                 (get_request ''http://a/'') ?init first_hop"
  have p: "?post = Inr (projr ?post)" and g: "?get = Inr (projr ?get)"
    by (simp_all add: model_defs example_defs)
  have pol: "redirect (post_request ''http://a/'') = Follow"
    "redirect (get_request ''http://a/'') = Follow"
    by (simp_all add: example_defs)
  have ev: "event ?h = ResponseEvent (found ''http://b/'')"
    by (simp add: respond_def)
  have st: "isRedirectStatus example_platform (statusCode (found ''http://b/''))"
    by (simp add: example_defs)
  have loc: "parseLocation (href example_platform) (res_headers (found ''http://b/'') ''location'')
        ''http://a/'' = Inr (Some ''http://b/'')"
    by (simp add: model_defs example_defs)
  have u: "url (post_request ''http://a/'') = ''http://a/''" "url (get_request ''http://a/'') = ''http://a/''"
    by (simp_all add: example_defs)
  have ne: "''http://b/'' \<noteq> ([] :: string)" by simp
  have sg: "signal timed_init \<noteq> None \<longrightarrow> (\<forall>a. abort_fires ?h = Some a \<longrightarrow> arrives ?h < a)"
    by (simp add: example_defs)
  have tmp: "\<forall>d. s_timeoutInfo (projr ?post) = Some d \<longrightarrow> arrives ?h < now1 ?h + d"
    and tmg: "\<forall>d. s_timeoutInfo (projr ?get) = Some d \<longrightarrow> arrives ?h < now1 ?h + d"
    by (simp_all add: model_defs example_defs)
  have locp: "parseLocation (href example_platform) (res_headers (found ''http://b/'') ''location'')
        (url (post_request ''http://a/'')) = Inr (Some ''http://b/'')"
    and locg: "parseLocation (href example_platform) (res_headers (found ''http://b/'') ''location'')
        (url (get_request ''http://a/'')) = Inr (Some ''http://b/'')"
    using loc u by simp_all
  note P0 = follow_redirect_by_method[where pf = example_platform and h = ?h
             and session = example_session and input = "post_request ''http://a/''"
             and init = timed_init and ex = first_hop and st = "projr ?post"
             and res = "found ''http://b/''" and loc = "''http://b/''" and hs = "[]"]
  note P = P0[OF p pol(1) ev st locp ne sg tmp, unfolded Let_def]
  have mp: "req_method (post_request ''http://a/'') = ''POST''"
    and mg: "req_method (get_request ''http://a/'') = ''GET''"
    by (simp_all add: example_defs)
  from P mp have "map_option (snd \<circ> snd)
        (fetchImpl example_platform [?h] example_session
           (post_request ''http://a/'') timed_init first_hop)
       = Some (Settled (Rejected (RedirectionMethodError (Some ''http://b/'') ''POST'')))"
    by simp
  moreover
  let ?session' = "(if truthy (res_headers (found ''http://b/'') ''set-cookie'')
             then example_session\<lparr> cookieJar :=
                    setCookies (arrayify (res_headers (found ''http://b/'') ''set-cookie''))
                      (url (get_request ''http://a/'')) (cookieJar example_session) \<rparr>
             else example_session)"
  let ?init' = "\<lparr> signal = signal_now timed_init (aborted_at_setup ?h),
                    onTrailers = onTrailers timed_init, timeout = None \<rparr>"
  let ?ex' = "\<lparr> redirected = redirected first_hop @ [url (get_request ''http://a/'')],
                  timeoutAt = chain_deadline (now0 ?h) timed_init first_hop \<rparr>"
  let ?X = "attempt example_platform ?h2 ?session' (clone (get_request ''http://a/'') ''http://b/'')
              ?init' ?ex'"
  note G0 = follow_redirect_by_method[where pf = example_platform and h = ?h
             and session = example_session and input = "get_request ''http://a/''"
             and init = timed_init and ex = first_hop and st = "projr ?get"
             and res = "found ''http://b/''" and loc = "''http://b/''" and hs = "[?h2]"]
  note G = G0[OF g pol(2) ev st locg ne sg tmg, unfolded Let_def]
  define s2 where "s2 = fst ?X"
  define e2 where "e2 = fst (snd ?X)"
  define r2 where "r2 = snd (snd ?X)"
  have X: "?X = (s2, e2, r2)" by (simp add: s2_def e2_def r2_def)
  have nr: "\<forall>q i e. r2 \<noteq> Redirected q i e"
    and se: "e2 = Sent (case e2 of Sent st2 \<Rightarrow> st2)"
    unfolding r2_def e2_def by (simp_all add: model_defs example_defs)
  have gh: "req_method (get_request ''http://a/'') = ''GET''
            \<or> req_method (get_request ''http://a/'') = ''HEAD''"
    using mg by simp
  have pre: "[?h2] = ?h2 # [] \<and> ?X = (s2, e2, r2) \<and> (\<forall>q i e. r2 \<noteq> Redirected q i e)"
    using X nr by simp
  note G1 = G[THEN conjunct2, rule_format, OF gh]
  note G3 = G1[THEN conjunct2, rule_format, OF pre]
  from G3 have run: "fetchImpl example_platform [?h, ?h2] example_session (get_request ''http://a/'')
               timed_init first_hop
             = Some (s2, [Sent (projr ?get), e2], r2)"
    by (rule conjunct1)
  from G3 have nxt: "\<forall>st2. e2 = Sent st2 \<longrightarrow> s_url st2 = ''http://b/''"
    by (elim conjE) (intro allI impI, blast)
  have ua: "s_url (projr ?get) = ''http://a/''"
    using setupFetch_fields(1)[OF g] u(2) by simp
  from nxt se have ub: "s_url (case e2 of Sent st2 \<Rightarrow> st2) = ''http://b/''"
    by blast
  have "sent_urls [Sent (projr ?get), e2] = [''http://a/'', ''http://b/'']"
    by (subst se) (simp add: ua ub)
  with run
  have "map_option (sent_urls \<circ> fst \<circ> snd)
        (fetchImpl example_platform [?h, ?h2] example_session (get_request ''http://a/'')
           timed_init first_hop) = Some [''http://a/'', ''http://b/'']"
    by simp
  ultimately show ?thesis using pol(1) st loc by simp
qed

text \<open>
  C3, as the claim has it, fails on a response that does not settle its attempt. The
  response below is a 302 with a usable location under the policy \<open>Follow\<close>. When it
  arrives after the signal was aborted, the listener aborts the request and returns: a
  POST is not rejected with the method error and a GET is not sent again, and the call
  ends with \<open>AbortError\<close> after one network operation. When it arrives after the deadline,
  the timer has won the race and the call of the POST ends with \<open>TimeoutError\<close>.
\<close>

theorem redirect_not_evaluated_after_abort_or_deadline:
  "redirect (post_request ''http://a/'') = Follow
   \<and> req_method (post_request ''http://a/'') = ''POST''
   \<and> isRedirectStatus example_platform (statusCode (found ''http://b/''))
   \<and> parseLocation (href example_platform) (res_headers (found ''http://b/'') ''location'')
        ''http://a/'' = Inr (Some ''http://b/'')
   \<and> onResponse example_platform
         (projr (setupFetch example_platform 0 0 example_session (post_request ''http://a/'')
                   signal_init first_hop))
         first_hop (Some \<lparr> aborted = True \<rparr>) (found ''http://b/'') example_session
       = (example_session, Ignored)
   \<and> map_option (snd \<circ> snd)
        (fetch example_platform [respond_after_abort 0 5 10 (found ''http://b/'')]
           example_session (post_request ''http://a/'') signal_init)
       = Some (Settled (Rejected AbortError))
   \<and> map_option (snd \<circ> snd)
        (fetch example_platform [respond 0 120 (found ''http://b/'')]
           example_session (post_request ''http://a/'') timed_init)
       = Some (Settled (Rejected TimeoutError))
   \<and> map_option (sent_urls \<circ> fst \<circ> snd)
        (fetch example_platform [respond_after_abort 0 5 10 (found ''http://b/''), respond 10 20 ok]
           example_session (get_request ''http://a/'') signal_init)
       = Some [''http://a/'']
   \<and> map_option (snd \<circ> snd)
        (fetch example_platform [respond_after_abort 0 5 10 (found ''http://b/''), respond 10 20 ok]
           example_session (get_request ''http://a/'') signal_init)
       = Some (Settled (Rejected AbortError))"
  by (simp add: model_defs example_defs respond_after_abort_def)

text \<open>
  C4. A terminal stream response carries \<open>r_redirected = True\<close> exactly when the policy of
  the request is not \<open>Manual\<close> and the list of visited URLs of the attempt is not empty. For
  a call of \<^verbatim>\<open>fetch\<close>, whose chain starts with an empty list, that is: exactly when the
  policy is not \<open>Manual\<close> and the response comes from an attempt after the first.
\<close>

theorem redirected_flag:
  "(setupFetch pf n0 n1 session input init ex = Inr st \<and>
    onResponse pf st ex sg res session = (session', Resolve x)
      \<longrightarrow> r_redirected x = (redirect input \<noteq> Manual \<and> redirected ex \<noteq> []))
   \<and> (fetch pf hs session input init = Some (session'', tr, Settled (Resolved (Stream y)))
      \<longrightarrow> r_redirected y = (redirect input \<noteq> Manual \<and> 1 < length tr))"
proof (intro conjI impI)
  assume a: "setupFetch pf n0 n1 session input init ex = Inr st \<and>
    onResponse pf st ex sg res session = (session', Resolve x)"
  from onResponse_Resolve(1)[of pf st ex sg res session session' x] a
    setupFetch_fields(3)[of pf n0 n1 session input init ex st]
  show "r_redirected x = (redirect input \<noteq> Manual \<and> redirected ex \<noteq> [])" by simp
next
  assume "fetch pf hs session input init = Some (session'', tr, Settled (Resolved (Stream y)))"
  from chain_redirected_flag[OF this[unfolded fetch_def]]
  show "r_redirected y = (redirect input \<noteq> Manual \<and> 1 < length tr)" by simp
qed

theorem redirected_flag_witness:
  "map_option (sent_urls \<circ> fst \<circ> snd)
     (fetch example_platform quick_hops example_session (get_request ''http://a/'') timed_init)
     = Some [''http://a/'', ''http://b/'']
   \<and> map_option (snd \<circ> snd)
     (fetch example_platform quick_hops example_session (get_request ''http://a/'') timed_init)
     = Some (Settled (Resolved (Stream
         (case snd (snd (the (fetch example_platform quick_hops example_session
                                (get_request ''http://a/'') timed_init))) of
            Settled (Resolved (Stream y)) \<Rightarrow> y))))
   \<and> r_redirected
       (case snd (snd (the (fetch example_platform quick_hops example_session
                              (get_request ''http://a/'') timed_init))) of
          Settled (Resolved (Stream y)) \<Rightarrow> y)
   \<and> snd (onResponse example_platform
            (projr (setupFetch example_platform 0 0 example_session (get_request ''http://a/'')
                      no_init first_hop))
            first_hop None ok example_session)
       = Resolve (case snd (onResponse example_platform
                     (projr (setupFetch example_platform 0 0 example_session
                               (get_request ''http://a/'') no_init first_hop))
                     first_hop None ok example_session) of Resolve x \<Rightarrow> x)
   \<and> \<not> r_redirected
         (case snd (onResponse example_platform
                     (projr (setupFetch example_platform 0 0 example_session
                               (get_request ''http://a/'') no_init first_hop))
                     first_hop None ok example_session) of Resolve x \<Rightarrow> x)"
proof -
  let ?run = "fetch example_platform quick_hops example_session (get_request ''http://a/'')
                timed_init"
  let ?y = "case snd (snd (the ?run)) of Settled (Resolved (Stream y)) \<Rightarrow> y"
  let ?s = "setupFetch example_platform 0 0 example_session (get_request ''http://a/'')
              no_init first_hop"
  let ?on = "onResponse example_platform (projr ?s) first_hop None ok example_session"
  let ?x = "case snd ?on of Resolve x \<Rightarrow> x"
  have run: "?run = Some (fst (the ?run), fst (snd (the ?run)), Settled (Resolved (Stream ?y)))"
    by (simp add: model_defs example_defs quick_hops_def)
  have len: "length (fst (snd (the ?run))) = 2" and pol: "redirect (get_request ''http://a/'') = Follow"
    and sent: "map_option (sent_urls \<circ> fst \<circ> snd) ?run = Some [''http://a/'', ''http://b/'']"
    by (simp_all add: model_defs example_defs quick_hops_def)
  have s: "?s = Inr (projr ?s)" and on: "?on = (fst ?on, Resolve ?x)"
    and first: "redirected first_hop = []"
    by (simp_all add: model_defs example_defs quick_hops_def)
  note flag = redirected_flag[where pf = example_platform and hs = quick_hops
         and session = example_session and input = "get_request ''http://a/''"
         and init = timed_init and session'' = "fst (the ?run)" and tr = "fst (snd (the ?run))"
         and y = ?y]
  have "r_redirected ?y"
    using flag run len pol by simp
  moreover have "\<not> r_redirected ?x"
    using redirected_flag[where pf = example_platform and session = example_session
            and input = "get_request ''http://a/''" and init = no_init
            and ex = first_hop and st = "projr ?s" and sg = None and res = ok
            and session' = "fst ?on" and x = ?x] s on first
    by blast
  moreover from run have "map_option (snd \<circ> snd) ?run = Some (Settled (Resolved (Stream ?y)))"
    by (metis comp_apply option.simps(9) snd_conv)
  moreover from on have "snd ?on = Resolve ?x"
    by (metis snd_conv)
  ultimately show ?thesis using sent by simp
qed

text \<open>
  C5. The accept-encoding value that \<^verbatim>\<open>setupFetch\<close> computes is the one the specification
  words: \<^verbatim>\<open>gzip;q=1.0, deflate;q=0.5\<close> without decoders, otherwise the decoder names at
  quality 1.0 in their order, followed by gzip at 0.8 and deflate at 0.5; for the single
  decoder br it is \<^verbatim>\<open>br;q=1.0, gzip;q=0.8, deflate;q=0.5\<close>. It is the accept-encoding header
  of the assembled headers whenever the request brings no accept-encoding header of its
  own (request headers are copied over the defaults).
\<close>

theorem accept_encoding_composition:
  "acceptEncoding ds = acceptEncoding_spec (map decoder_name ds)
   \<and> acceptEncoding [] = ''gzip;q=1.0, deflate;q=0.5''
   \<and> acceptEncoding [\<lparr> decoder_name = ''br'' \<rparr>] = ''br;q=1.0, gzip;q=0.8, deflate;q=0.5''
   \<and> (setupFetch pf n0 n1 session input init ex = Inr st \<and>
        \<not> headers_has (headers input) ''accept-encoding''
        \<longrightarrow> s_headersToSend st ''accept-encoding''
              = Some (acceptEncoding_spec (map decoder_name (contentDecoders session))))"
proof (intro conjI impI)
  show "acceptEncoding ds = acceptEncoding_spec (map decoder_name ds)"
    by (rule acceptEncoding_refines)
  show "acceptEncoding [] = ''gzip;q=1.0, deflate;q=0.5''"
    by (simp add: acceptEncoding_def)
  show "acceptEncoding [\<lparr> decoder_name = ''br'' \<rparr>] = ''br;q=1.0, gzip;q=0.8, deflate;q=0.5''"
    by (simp add: acceptEncoding_def)
next
  assume a: "setupFetch pf n0 n1 session input init ex = Inr st \<and>
        \<not> headers_has (headers input) ''accept-encoding''"
  then obtain u where "s_headersToSend st = headersToSend pf session input u"
    using setupFetch_fields(15) by blast
  with a show "s_headersToSend st ''accept-encoding''
              = Some (acceptEncoding_spec (map decoder_name (contentDecoders session)))"
    by (simp add: headersToSend_accept_encoding acceptEncoding_refines)
qed

theorem accept_encoding_composition_witness:
  "setupFetch example_platform 0 0 example_session (get_request ''http://a/'') no_init first_hop
     = Inr (projr (setupFetch example_platform 0 0 example_session (get_request ''http://a/'')
                     no_init first_hop))
   \<and> \<not> headers_has (headers (get_request ''http://a/'')) ''accept-encoding''
   \<and> contentDecoders example_session = [\<lparr> decoder_name = ''br'' \<rparr>]
   \<and> s_headersToSend
        (projr (setupFetch example_platform 0 0 example_session (get_request ''http://a/'')
                  no_init first_hop)) ''accept-encoding''
       = Some ''br;q=1.0, gzip;q=0.8, deflate;q=0.5''"
proof -
  let ?s = "setupFetch example_platform 0 0 example_session (get_request ''http://a/'')
              no_init first_hop"
  have s: "?s = Inr (projr ?s)"
    by (simp add: model_defs example_defs)
  have h: "\<not> headers_has (headers (get_request ''http://a/'')) ''accept-encoding''"
    by (simp add: headers_has_def get_request_def)
  have d: "contentDecoders example_session = [\<lparr> decoder_name = ''br'' \<rparr>]"
    by (simp add: example_session_def)
  from accept_encoding_composition[where pf = example_platform and session = example_session
         and input = "get_request ''http://a/''" and st = "projr ?s", of _ 0 0 no_init first_hop] s h
  have "s_headersToSend (projr ?s) ''accept-encoding''
          = Some (acceptEncoding_spec (map decoder_name (contentDecoders example_session)))"
    by blast
  then have "s_headersToSend (projr ?s) ''accept-encoding''
          = Some ''br;q=1.0, gzip;q=0.8, deflate;q=0.5''"
    by (simp add: d acceptEncoding_spec_def)
  with s h d show ?thesis by simp
qed

text \<open>
  C6. The cookie header of the assembled headers is made from the cookies that the jar
  answers for the URL of the request, followed by the value of the request's own cookie
  header if it has one, joined with a semicolon and a space; when that list is empty the
  assembled headers have no cookie header. Nothing else writes the cookie header: the
  loop that copies the request headers skips it.
\<close>

theorem cookie_header_merge:
  assumes "setupFetch pf n0 n1 session input init ex = Inr st"
  shows "s_headersToSend st ''cookie'' =
           (let cookies = getCookies pf (cookieJar session) (url input)
                          @ (case headers_get (headers input) ''cookie'' of
                               None \<Rightarrow> []
                             | Some v \<Rightarrow> [v])
            in if cookies = [] then None else Some (join ''; '' cookies))"
proof -
  from setupFetch_fields(15)[OF assms] obtain u where
    h: "s_headersToSend st = headersToSend pf session input u" by blast
  have "headers_has (headers input) ''cookie'' \<longleftrightarrow> headers_get (headers input) ''cookie'' \<noteq> None"
    by (simp add: headers_has_def headers_get_def map_of_eq_None_iff)
  then have "cookie_list pf session input
               = getCookies pf (cookieJar session) (url input)
                 @ (case headers_get (headers input) ''cookie'' of None \<Rightarrow> [] | Some v \<Rightarrow> [v])"
    by (auto simp: cookie_list_def split: option.splits)
  with h show ?thesis
    by (simp add: headersToSend_cookie Let_def)
qed

theorem cookie_header_merge_witness:
  "setupFetch example_platform 0 0 example_session (get_request ''http://a/'') no_init first_hop
     = Inr (projr (setupFetch example_platform 0 0 example_session (get_request ''http://a/'')
                     no_init first_hop))
   \<and> getCookies example_platform (cookieJar example_session) ''http://a/'' = [''a=1'']
   \<and> headers_get (headers (get_request ''http://a/'')) ''cookie'' = Some ''b=2''
   \<and> s_headersToSend
        (projr (setupFetch example_platform 0 0 example_session (get_request ''http://a/'')
                  no_init first_hop)) ''cookie''
       = Some ''a=1; b=2''"
proof -
  let ?s = "setupFetch example_platform 0 0 example_session (get_request ''http://a/'')
              no_init first_hop"
  have s: "?s = Inr (projr ?s)"
    by (simp add: model_defs example_defs)
  have j: "getCookies example_platform (cookieJar example_session) ''http://a/'' = [''a=1'']"
    by (simp add: example_platform_def example_session_def)
  have c: "headers_get (headers (get_request ''http://a/'')) ''cookie'' = Some ''b=2''"
    by (simp add: headers_get_def get_request_def)
  have u: "url (get_request ''http://a/'') = ''http://a/''"
    by (simp add: get_request_def)
  from cookie_header_merge[OF s]
  have "s_headersToSend (projr ?s) ''cookie'' = Some ''a=1; b=2''"
    by (simp add: j c u)
  with s j c show ?thesis by simp
qed

lemma onResponse_Continue_jar:
  assumes "onResponse pf st ex sg res session = (session', Continue req i' e')"
  shows "cookieJar session' =
           (if truthy (res_headers res ''set-cookie'')
            then setCookies (arrayify (res_headers res ''set-cookie'')) (s_url st) (cookieJar session)
            else cookieJar session)"
  using assms
  by (auto simp: onResponse_def Let_def split: if_splits sum.splits)

text \<open>
  C7, as the code has it. The listener parses the location first. When that throws (the
  location is a string that the URL parser rejects), the promise is rejected with the
  parser's exception and the jar is left as it was. When it returns, the \<^verbatim>\<open>set-cookie\<close>
  header, if present and not the empty string, is handed to the jar with the URL of the
  request, whatever the redirect evaluation then decides; the listener settles the
  promise; a terminal response carries the headers of the response without
  \<^verbatim>\<open>set-cookie\<close> and \<^verbatim>\<open>set-cookie2\<close>; and when the chain goes on, the next attempt starts
  from the session with the cookies stored. All of this is for a response that arrives
  while the signal is not aborted.
\<close>

theorem set_cookie_stored_before_policy:
  assumes "\<not> (case sg of Some s \<Rightarrow> aborted s | None \<Rightarrow> False)"
  shows "(parseLocation (href pf) (res_headers res ''location'') (s_url st) = Inl e \<longrightarrow>
            onResponse pf st ex sg res session = (session, Reject e))
         \<and> (parseLocation (href pf) (res_headers res ''location'') (s_url st) = Inr location \<longrightarrow>
            cookieJar (fst (onResponse pf st ex sg res session)) =
              (if truthy (res_headers res ''set-cookie'')
               then setCookies (arrayify (res_headers res ''set-cookie'')) (s_url st)
                      (cookieJar session)
               else cookieJar session)
            \<and> snd (onResponse pf st ex sg res session) \<noteq> Ignored
            \<and> (\<forall>x. snd (onResponse pf st ex sg res session) = Resolve x \<longrightarrow>
                  r_headers x = (res_headers res)(''set-cookie'' := None, ''set-cookie2'' := None))
            \<and> (\<forall>h session0 input init session1 req i' e'.
                  attempt pf h session0 input init ex = (session1, Sent st, Redirected req i' e')
                  \<and> event h = ResponseEvent res \<longrightarrow>
                  cookieJar session1 =
                    (if truthy (res_headers res ''set-cookie'')
                     then setCookies (arrayify (res_headers res ''set-cookie'')) (url input)
                            (cookieJar session0)
                     else cookieJar session0)))"
proof (intro conjI impI)
  assume "parseLocation (href pf) (res_headers res ''location'') (s_url st) = Inl e"
  with assms show "onResponse pf st ex sg res session = (session, Reject e)"
    by (simp add: onResponse_def)
next
  assume loc: "parseLocation (href pf) (res_headers res ''location'') (s_url st) = Inr location"
  note p = onResponse_processed[OF assms loc, of ex session]
  show "cookieJar (fst (onResponse pf st ex sg res session)) =
           (if truthy (res_headers res ''set-cookie'')
            then setCookies (arrayify (res_headers res ''set-cookie'')) (s_url st) (cookieJar session)
            else cookieJar session)"
    by (simp add: p)
  show "snd (onResponse pf st ex sg res session) \<noteq> Ignored"
    by (simp add: p redirect_driver_not_Ignored)
  show "\<forall>x. snd (onResponse pf st ex sg res session) = Resolve x \<longrightarrow>
          r_headers x = (res_headers res)(''set-cookie'' := None, ''set-cookie2'' := None)"
    using redirect_driver_Resolve(1) by (simp add: p)
  show "\<forall>h session0 input init session1 req i' e'.
          attempt pf h session0 input init ex = (session1, Sent st, Redirected req i' e')
          \<and> event h = ResponseEvent res \<longrightarrow>
          cookieJar session1 =
            (if truthy (res_headers res ''set-cookie'')
             then setCookies (arrayify (res_headers res ''set-cookie'')) (url input)
                    (cookieJar session0)
             else cookieJar session0)"
  proof (intro allI impI)
    fix h session0 input init session1 req i' e'
    assume a: "attempt pf h session0 input init ex = (session1, Sent st, Redirected req i' e')
                 \<and> event h = ResponseEvent res"
    from attempt_Redirected[of pf h session0 input init ex session1 "Sent st" req i' e'] a
    obtain sg' where
      su: "setupFetch pf (now0 h) (now1 h) session0 input
               (init\<lparr> signal := signal_now init (aborted_at_setup h) \<rparr>) ex = Inr st"
      and on: "onResponse pf st ex sg' res session0 = (session1, Continue req i' e')"
      by auto
    from onResponse_Continue_jar[OF on] setupFetch_fields(1)[OF su]
    show "cookieJar session1 =
            (if truthy (res_headers res ''set-cookie'')
             then setCookies (arrayify (res_headers res ''set-cookie'')) (url input)
                    (cookieJar session0)
             else cookieJar session0)"
      by simp
  qed
qed

theorem set_cookie_stored_before_policy_witness:
  "parseLocation (href example_platform) (res_headers (found ''http://b/'') ''location'')
     (s_url (projr (setupFetch example_platform 0 0 example_session (post_request ''http://a/'')
                      no_init first_hop))) = Inr (Some ''http://b/'')
   \<and> snd (onResponse example_platform
            (projr (setupFetch example_platform 0 0 example_session (post_request ''http://a/'')
                      no_init first_hop))
            first_hop None (found ''http://b/'') example_session)
       = Reject (RedirectionMethodError (Some ''http://b/'') ''POST'')
   \<and> cookieJar (fst (onResponse example_platform
            (projr (setupFetch example_platform 0 0 example_session (post_request ''http://a/'')
                      no_init first_hop))
            first_hop None (found ''http://b/'') example_session))
       = [([''a=1''], ''http://a/''), ([''foo=bar''], ''http://a/'')]
   \<and> parseLocation (href example_platform) (res_headers (found ''http://['') ''location'')
       (s_url (projr (setupFetch example_platform 0 0 example_session (post_request ''http://a/'')
                        no_init first_hop))) = Inl InvalidURL
   \<and> onResponse example_platform
         (projr (setupFetch example_platform 0 0 example_session (post_request ''http://a/'')
                   no_init first_hop))
         first_hop None (found ''http://['') example_session
       = (example_session, Reject InvalidURL)"
proof -
  let ?st = "projr (setupFetch example_platform 0 0 example_session (post_request ''http://a/'')
                      no_init first_hop)"
  have na: "\<not> (case None :: signal option of Some s \<Rightarrow> aborted s | None \<Rightarrow> False)"
    by simp
  have loc: "parseLocation (href example_platform) (res_headers (found ''http://b/'') ''location'')
     (s_url ?st) = Inr (Some ''http://b/'')"
    and bad: "parseLocation (href example_platform) (res_headers (found ''http://['') ''location'')
     (s_url ?st) = Inl InvalidURL"
    by (simp_all add: model_defs example_defs)
  have r: "snd (onResponse example_platform ?st first_hop None (found ''http://b/'') example_session)
       = Reject (RedirectionMethodError (Some ''http://b/'') ''POST'')"
    by (simp add: model_defs example_defs)
  have u: "s_url ?st = ''http://a/''"
    by (simp add: model_defs example_defs)
  have "cookieJar (fst (onResponse example_platform ?st first_hop None (found ''http://b/'')
                          example_session))
         = (if truthy (res_headers (found ''http://b/'') ''set-cookie'')
            then setCookies (arrayify (res_headers (found ''http://b/'') ''set-cookie''))
                   (s_url ?st) (cookieJar example_session)
            else cookieJar example_session)"
    using set_cookie_stored_before_policy[OF na, where ex = first_hop
            and session = example_session and pf = example_platform
            and res = "found ''http://b/''" and st = ?st and location = "Some ''http://b/''"] loc
    by blast
  also have "\<dots> = [([''a=1''], ''http://a/''), ([''foo=bar''], ''http://a/'')]"
    unfolding u by (simp add: found_def example_session_def setCookies_def)
  finally have jar: "cookieJar (fst (onResponse example_platform ?st first_hop None
                                   (found ''http://b/'') example_session))
         = [([''a=1''], ''http://a/''), ([''foo=bar''], ''http://a/'')]" .
  have "onResponse example_platform ?st first_hop None (found ''http://['') example_session
          = (example_session, Reject InvalidURL)"
    using set_cookie_stored_before_policy[OF na, where ex = first_hop
            and session = example_session and pf = example_platform
            and res = "found ''http://[''" and st = ?st and e = InvalidURL] bad
    by blast
  with loc bad r jar show ?thesis by simp
qed

text \<open>
  C7, as the claim has it, fails on two responses that carry \<^verbatim>\<open>set-cookie: foo=bar\<close>.
  A response whose location header does not parse is rejected by the exception of
  \<^verbatim>\<open>parseLocation\<close>, which is evaluated before the cookies are looked at: the call is
  rejected and the jar is what it was. A response that arrives when the signal is aborted
  is dropped by the listener's first statement: nothing is stored and nothing is settled.
\<close>

theorem set_cookie_lost_on_unparsable_location:
  "truthy (res_headers (found ''http://['') ''set-cookie'')
   \<and> map_option (snd \<circ> snd)
        (fetch example_platform [respond 0 1 (found ''http://['')] example_session
           (get_request ''http://a/'') no_init) = Some (Settled (Rejected InvalidURL))
   \<and> map_option (cookieJar \<circ> fst)
        (fetch example_platform [respond 0 1 (found ''http://['')] example_session
           (get_request ''http://a/'') no_init) = Some (cookieJar example_session)
   \<and> cookieJar example_session
       \<noteq> setCookies (arrayify (res_headers (found ''http://['') ''set-cookie'')) ''http://a/''
           (cookieJar example_session)
   \<and> onResponse example_platform
         (projr (setupFetch example_platform 0 0 example_session (get_request ''http://a/'')
                   signal_init first_hop))
         first_hop (Some \<lparr> aborted = True \<rparr>) (found ''http://b/'') example_session
       = (example_session, Ignored)"
  by (simp add: model_defs example_defs)

lemma fetchImpl_setup_failed:
  assumes "setupFetch pf (now0 h) (now1 h) session input
             (init\<lparr> signal := signal_now init (aborted_at_setup h) \<rparr>) ex = Inl e"
  shows "fetchImpl pf (h # hs) session input init ex
           = Some (session, [SetupFailed e], Settled (Rejected e))"
  using assms by (simp add: attempt_def)

lemma setupFetch_aborted:
  assumes "signal init = Some sg" and "aborted sg"
  shows "\<exists>e. setupFetch pf n0 n1 session input init ex = Inl e"
    and "ensureNotCircularRedirection (redirected ex) = Inr () \<Longrightarrow>
         url_parts pf (url input) \<noteq> None \<Longrightarrow>
         setupTimeout n1 (chain_deadline n0 init ex) = Inr ti \<Longrightarrow>
         setupFetch pf n0 n1 session input init ex = Inl AbortError"
  using assms
  by (auto simp: setupFetch_def Let_def split: sum.splits option.splits)

lemma setupFetch_timed_out:
  assumes "chain_deadline n0 init ex = Some T" and "T \<noteq> 0" and "T \<le> n1"
      and "ensureNotCircularRedirection (redirected ex) = Inr ()"
      and "url_parts pf (url input) \<noteq> None"
  shows "setupFetch pf n0 n1 session input init ex = Inl TimeoutError"
  using assms
  by (auto simp: setupFetch_def setupTimeout_def Let_def split: sum.splits option.splits)

text \<open>
  C8. An attempt whose deadline has passed when \<^verbatim>\<open>setupTimeout\<close> reads the clock, or whose
  signal is aborted when \<^verbatim>\<open>setupFetch\<close> reads it, ends the call inside \<^verbatim>\<open>setupFetch\<close>: the
  trace holds the failed set-up only (no request was sent, no race was built) and the
  session is untouched. The error is \<open>TimeoutError\<close> for the deadline and \<open>AbortError\<close> for
  the signal, in the order of the checks of \<^verbatim>\<open>setupFetch\<close>: the loop check and the URL
  parser come first, then the deadline, then the signal.
\<close>

theorem setup_fails_before_send:
  "(chain_deadline (now0 h) init ex = Some T \<and> T \<noteq> 0 \<and> T \<le> now1 h \<longrightarrow>
      (\<exists>e. fetchImpl pf (h # hs) session input init ex
              = Some (session, [SetupFailed e], Settled (Rejected e)))
      \<and> (ensureNotCircularRedirection (redirected ex) = Inr () \<and> url_parts pf (url input) \<noteq> None
          \<longrightarrow> fetchImpl pf (h # hs) session input init ex
                = Some (session, [SetupFailed TimeoutError], Settled (Rejected TimeoutError))))
   \<and> (signal init \<noteq> None \<and> aborted_at_setup h \<longrightarrow>
      (\<exists>e. fetchImpl pf (h # hs) session input init ex
              = Some (session, [SetupFailed e], Settled (Rejected e)))
      \<and> (ensureNotCircularRedirection (redirected ex) = Inr () \<and> url_parts pf (url input) \<noteq> None
          \<and> (\<exists>ti. setupTimeout (now1 h) (chain_deadline (now0 h) init ex) = Inr ti)
          \<longrightarrow> fetchImpl pf (h # hs) session input init ex
                = Some (session, [SetupFailed AbortError], Settled (Rejected AbortError))))"
proof (intro conjI impI)
  let ?init = "init\<lparr> signal := signal_now init (aborted_at_setup h) \<rparr>"
  {
    assume a: "chain_deadline (now0 h) init ex = Some T \<and> T \<noteq> 0 \<and> T \<le> now1 h"
    then have dl: "chain_deadline (now0 h) ?init ex = Some T" by simp
    from setupFetch_late[OF dl, of "now1 h" pf session input] a
    obtain e where "setupFetch pf (now0 h) (now1 h) session input ?init ex = Inl e" by auto
    from fetchImpl_setup_failed[OF this]
    show "\<exists>e. fetchImpl pf (h # hs) session input init ex
              = Some (session, [SetupFailed e], Settled (Rejected e))" by blast
    assume "ensureNotCircularRedirection (redirected ex) = Inr () \<and> url_parts pf (url input) \<noteq> None"
    with setupFetch_timed_out[OF dl, of "now1 h" pf input session] a
    have "setupFetch pf (now0 h) (now1 h) session input ?init ex = Inl TimeoutError" by simp
    from fetchImpl_setup_failed[OF this]
    show "fetchImpl pf (h # hs) session input init ex
                = Some (session, [SetupFailed TimeoutError], Settled (Rejected TimeoutError))" .
  }
  {
    assume a: "signal init \<noteq> None \<and> aborted_at_setup h"
    define sg where "sg = (the (signal init))\<lparr> aborted := True \<rparr>"
    from a have sg: "signal ?init = Some sg" "aborted sg"
      by (cases "signal init"; simp add: signal_now_def sg_def)+
    from setupFetch_aborted(1)[OF sg, of pf "now0 h" "now1 h" session input ex]
    obtain e where "setupFetch pf (now0 h) (now1 h) session input ?init ex = Inl e" by auto
    from fetchImpl_setup_failed[OF this]
    show "\<exists>e. fetchImpl pf (h # hs) session input init ex
              = Some (session, [SetupFailed e], Settled (Rejected e))" by blast
    assume "ensureNotCircularRedirection (redirected ex) = Inr () \<and> url_parts pf (url input) \<noteq> None
          \<and> (\<exists>ti. setupTimeout (now1 h) (chain_deadline (now0 h) init ex) = Inr ti)"
    with setupFetch_aborted(2)[OF sg, of ex pf input "now1 h" "now0 h" _ session]
    have "setupFetch pf (now0 h) (now1 h) session input ?init ex = Inl AbortError" by auto
    from fetchImpl_setup_failed[OF this]
    show "fetchImpl pf (h # hs) session input init ex
                = Some (session, [SetupFailed AbortError], Settled (Rejected AbortError))" .
  }
qed

theorem setup_fails_before_send_witness:
  "chain_deadline (now0 (respond 100 110 ok)) timed_init
     \<lparr> redirected = [''http://a/''], timeoutAt = Some 100 \<rparr> = Some 100
   \<and> (100 :: int) \<le> now1 (respond 100 110 ok)
   \<and> fetchImpl example_platform [respond 100 110 ok] example_session (get_request ''http://b/'')
        timed_init \<lparr> redirected = [''http://a/''], timeoutAt = Some 100 \<rparr>
       = Some (example_session, [SetupFailed TimeoutError], Settled (Rejected TimeoutError))
   \<and> signal signal_init \<noteq> None
   \<and> aborted_at_setup (respond_aborted 0 10 ok)
   \<and> fetchImpl example_platform [respond_aborted 0 10 ok] example_session
        (get_request ''http://a/'') signal_init first_hop
       = Some (example_session, [SetupFailed AbortError], Settled (Rejected AbortError))"
proof -
  let ?late = "respond 100 110 ok"
  let ?ex = "\<lparr> redirected = [''http://a/''], timeoutAt = Some 100 \<rparr>"
  have dl: "chain_deadline (now0 ?late) timed_init ?ex = Some 100" and late: "(100 :: int) \<le> now1 ?late"
    by (simp_all add: chain_deadline_def respond_def)
  have nz: "(100 :: int) \<noteq> 0" by simp
  have pre: "ensureNotCircularRedirection (redirected ?ex) = Inr ()"
    "url_parts example_platform (url (get_request ''http://b/'')) \<noteq> None"
    "ensureNotCircularRedirection (redirected first_hop) = Inr ()"
    "url_parts example_platform (url (get_request ''http://a/'')) \<noteq> None"
    by (simp_all add: model_defs example_defs respond_aborted_def)
  have sg: "signal signal_init \<noteq> None" "aborted_at_setup (respond_aborted 0 10 ok)"
    "\<exists>ti. setupTimeout (now1 (respond_aborted 0 10 ok))
            (chain_deadline (now0 (respond_aborted 0 10 ok)) signal_init first_hop) = Inr ti"
    by (simp_all add: model_defs example_defs respond_aborted_def)
  have "fetchImpl example_platform [?late] example_session (get_request ''http://b/'')
          timed_init ?ex
        = Some (example_session, [SetupFailed TimeoutError], Settled (Rejected TimeoutError))"
    using setup_fails_before_send[where h = ?late and init = timed_init and ex = ?ex
            and T = 100 and pf = example_platform and input = "get_request ''http://b/''"
            and hs = "[]" and session = example_session]
          dl late pre(1,2) nz
    by blast
  moreover
  have "fetchImpl example_platform [respond_aborted 0 10 ok] example_session
          (get_request ''http://a/'') signal_init first_hop
        = Some (example_session, [SetupFailed AbortError], Settled (Rejected AbortError))"
    using setup_fails_before_send[where h = "respond_aborted 0 10 ok" and init = signal_init
            and ex = first_hop and pf = example_platform and input = "get_request ''http://a/''"
            and hs = "[]" and session = example_session]
          sg pre(3,4)
    by blast
  ultimately show ?thesis using dl late sg(1,2) by simp
qed

text \<open>
  C9. Running \<^verbatim>\<open>cleanup\<close> a second time changes nothing. However often it runs, it removes
  at most one scheduled timer and at most one listener. For the coordinator that
  \<^verbatim>\<open>setupFetch\<close> returns, any positive number of runs removes exactly the timer (when one
  was armed) and exactly the listener (when a signal was supplied) and leaves neither
  behind; a timer that has fired is not cleared again.
\<close>

theorem cleanup_idempotent:
  assumes "setupFetch pf n0 n1 session input init ex = Inr st"
  shows "cleanup (cleanup c) = cleanup c
   \<and> (\<forall>n. cancelled ((cleanup ^^ n) c) \<le> Suc (cancelled c)
          \<and> detached ((cleanup ^^ n) c) \<le> Suc (detached c))
   \<and> (\<forall>n > 0. cancelled ((cleanup ^^ n) (coordinator_of st)) = (if s_timeoutInfo st \<noteq> None then 1 else 0)
          \<and> detached ((cleanup ^^ n) (coordinator_of st)) = (if signal init \<noteq> None then 1 else 0)
          \<and> \<not> armed ((cleanup ^^ n) (coordinator_of st))
          \<and> \<not> onabort ((cleanup ^^ n) (coordinator_of st))
          \<and> cancelled ((cleanup ^^ n) (timer_fires (coordinator_of st))) = 0)"
proof (intro conjI allI impI)
  show "cleanup (cleanup c) = cleanup c" by (rule cleanup_twice)
next
  fix n
  show "cancelled ((cleanup ^^ n) c) \<le> Suc (cancelled c)"
    by (cases "n = 0") (simp_all add: cleanup_funpow cleanup_counts)
  show "detached ((cleanup ^^ n) c) \<le> Suc (detached c)"
    by (cases "n = 0") (simp_all add: cleanup_funpow cleanup_counts)
next
  fix n :: nat assume n: "0 < n"
  note f = setupFetch_fields(8,10)[OF assms]
  have eq: "(cleanup ^^ n) (coordinator_of st) = cleanup (coordinator_of st)"
    using n by (rule cleanup_funpow)
  have eq': "(cleanup ^^ n) (timer_fires (coordinator_of st)) = cleanup (timer_fires (coordinator_of st))"
    using n by (rule cleanup_funpow)
  show "cancelled ((cleanup ^^ n) (coordinator_of st)) = (if s_timeoutInfo st \<noteq> None then 1 else 0)"
    unfolding eq by (simp add: cleanup_counts coordinator_of_def)
  show "detached ((cleanup ^^ n) (coordinator_of st)) = (if signal init \<noteq> None then 1 else 0)"
    unfolding eq by (simp add: cleanup_counts coordinator_of_def f)
  show "\<not> armed ((cleanup ^^ n) (coordinator_of st))"
    unfolding eq by (auto simp add: cleanup_counts coordinator_of_def)
  show "\<not> onabort ((cleanup ^^ n) (coordinator_of st))"
    unfolding eq by (auto simp add: cleanup_counts coordinator_of_def f)
  show "cancelled ((cleanup ^^ n) (timer_fires (coordinator_of st))) = 0"
    unfolding eq' by (auto simp add: cleanup_counts coordinator_of_def timer_fires_def)
qed


theorem cleanup_idempotent_witness:
  "setupFetch example_platform 0 0 example_session (get_request ''http://a/'') signal_init first_hop
     = Inr (projr (setupFetch example_platform 0 0 example_session (get_request ''http://a/'')
                     signal_init first_hop))
   \<and> cancelled ((cleanup ^^ 2) (coordinator_of
        (projr (setupFetch example_platform 0 0 example_session (get_request ''http://a/'')
                  signal_init first_hop)))) = 1
   \<and> detached ((cleanup ^^ 2) (coordinator_of
        (projr (setupFetch example_platform 0 0 example_session (get_request ''http://a/'')
                  signal_init first_hop)))) = 1
   \<and> cancelled (cleanup (coordinator_of
        (projr (setupFetch example_platform 0 0 example_session (get_request ''http://a/'')
                  signal_init first_hop)))) = 1"
proof -
  let ?s = "setupFetch example_platform 0 0 example_session (get_request ''http://a/'')
              signal_init first_hop"
  have s: "?s = Inr (projr ?s)"
    by (simp add: model_defs example_defs)
  have t: "s_timeoutInfo (projr ?s) \<noteq> None" and g: "signal signal_init \<noteq> None"
    by (simp_all add: model_defs example_defs)
  from cleanup_idempotent[OF s, of "coordinator_of (projr ?s)"] t g
  have "cancelled ((cleanup ^^ 2) (coordinator_of (projr ?s))) = 1"
    and "detached ((cleanup ^^ 2) (coordinator_of (projr ?s))) = 1"
    and "cancelled ((cleanup ^^ 1) (coordinator_of (projr ?s))) = 1"
    by (metis zero_less_numeral, metis zero_less_numeral, metis zero_less_one)
  with s show ?thesis by simp
qed

lemma add_header_location:
  "add_header h (k, v) ''location'' =
     (case h ''location'' of
        None \<Rightarrow> (if k = ''location'' then Some (Str v) else None)
      | Some x \<Rightarrow> Some x)"
  by (auto simp: add_header_def single_valued_def split: option.splits hval.splits)

lemma foldl_add_header_location:
  "foldl add_header h raw ''location'' =
     (case h ''location'' of
        None \<Rightarrow> map_option Str (map_of raw ''location'')
      | Some x \<Rightarrow> Some x)"
proof (induction raw arbitrary: h)
  case Nil
  then show ?case by (simp split: option.splits)
next
  case (Cons line raw)
  obtain k v where line: "line = (k, v)" by (cases line)
  show ?case
    by (simp add: Cons.IH line add_header_location split: option.splits)
qed

lemma node_headers_location:
  "node_headers raw ''location'' = map_option Str (map_of raw ''location'')"
  by (simp add: node_headers_def foldl_add_header_location)

text \<open>
  C10, as the code has it. \<^verbatim>\<open>parseLocation\<close> returns \<open>null\<close> for an absent location and
  for an array, and hands a string to the URL parser together with the base it is given,
  returning the parser's \<open>href\<close> (the parser's exception passes through). The listener
  gives it the location header and the URL of the request. The transport never delivers
  an array: the location header of a response is the value of the first location line,
  as a string, or absent when there is none. So, for a response with a redirect status
  that arrives while the signal is not aborted: without a location line the listener
  rejects with the illegal-redirect error (as it would for any location value that is not
  a string), and with location lines it goes by the first of them, however many follow.
  When such a response without a location line settles its attempt, the call ends
  rejected with the illegal-redirect error after that one network operation.
\<close>

theorem location_header_as_delivered:
  "parseLocation hr None base = Inr None
   \<and> parseLocation hr (Some (Arr xs)) base = Inr None
   \<and> parseLocation hr (Some (Str s)) base
       = (case hr s base of None \<Rightarrow> Inl InvalidURL | Some h \<Rightarrow> Inr (Some h))
   \<and> node_headers raw ''location'' = map_option Str (map_of raw ''location'')
   \<and> (isRedirectStatus pf (statusCode res)
       \<and> \<not> (case sg of Some s \<Rightarrow> aborted s | None \<Rightarrow> False) \<longrightarrow>
         ((\<forall>s. res_headers res ''location'' \<noteq> Some (Str s)) \<longrightarrow>
            snd (onResponse pf st ex sg res session) = Reject IllegalRedirect)
       \<and> (res_headers res = node_headers raw \<longrightarrow>
            (map_of raw ''location'' = None \<longrightarrow>
               snd (onResponse pf st ex sg res session) = Reject IllegalRedirect)
          \<and> (\<forall>v. map_of raw ''location'' = Some v \<longrightarrow>
               snd (onResponse pf st ex sg res session) =
                 (case href pf v (s_url st) of
                    None \<Rightarrow> Reject InvalidURL
                  | Some l \<Rightarrow>
                      redirect_driver pf st ex res
                        ((res_headers res)(''set-cookie'' := None, ''set-cookie2'' := None))
                        (Some l)))))
   \<and> (setupFetch pf (now0 h) (now1 h) session input
         (init\<lparr> signal := signal_now init (aborted_at_setup h) \<rparr>) ex = Inr st
       \<and> event h = ResponseEvent res
       \<and> res_headers res = node_headers raw \<and> map_of raw ''location'' = None
       \<and> isRedirectStatus pf (statusCode res)
       \<and> (signal init \<noteq> None \<longrightarrow> (\<forall>a. abort_fires h = Some a \<longrightarrow> arrives h < a))
       \<and> (\<forall>d. s_timeoutInfo st = Some d \<longrightarrow> arrives h < now1 h + d) \<longrightarrow>
         fetchImpl pf (h # hs) session input init ex =
           Some ((if truthy (res_headers res ''set-cookie'')
                  then session\<lparr> cookieJar :=
                         setCookies (arrayify (res_headers res ''set-cookie'')) (url input)
                           (cookieJar session) \<rparr>
                  else session),
                 [Sent st], Settled (Rejected IllegalRedirect)))"
proof (intro conjI impI allI)
  show "parseLocation hr None base = Inr None"
    and "parseLocation hr (Some (Arr xs)) base = Inr None"
    and "parseLocation hr (Some (Str s)) base
       = (case hr s base of None \<Rightarrow> Inl InvalidURL | Some h \<Rightarrow> Inr (Some h))"
    by (simp_all add: parseLocation_def)
  show "node_headers raw ''location'' = map_option Str (map_of raw ''location'')"
    by (rule node_headers_location)
next
  assume a: "isRedirectStatus pf (statusCode res)
       \<and> \<not> (case sg of Some s \<Rightarrow> aborted s | None \<Rightarrow> False)"
  then have na: "\<not> (case sg of Some s \<Rightarrow> aborted s | None \<Rightarrow> False)"
    and rs: "isRedirectStatus pf (statusCode res)" by simp_all
  have none: "snd (onResponse pf st ex sg res session) = Reject IllegalRedirect"
    if "\<forall>s. res_headers res ''location'' \<noteq> Some (Str s)"
  proof -
    from that have "parseLocation (href pf) (res_headers res ''location'') (s_url st) = Inr None"
      by (auto simp: parseLocation_def split: option.splits hval.splits)
    from onResponse_processed[OF na this] redirect_driver_no_location[OF rs]
    show ?thesis by simp
  qed
  {
    assume "\<forall>s. res_headers res ''location'' \<noteq> Some (Str s)"
    then show "snd (onResponse pf st ex sg res session) = Reject IllegalRedirect"
      by (rule none)
  }
  {
    assume r: "res_headers res = node_headers raw"
    {
      assume "map_of raw ''location'' = None"
      with r have "\<forall>s. res_headers res ''location'' \<noteq> Some (Str s)"
        by (simp add: node_headers_location)
      then show "snd (onResponse pf st ex sg res session) = Reject IllegalRedirect"
        by (rule none)
    }
    {
      fix v assume "map_of raw ''location'' = Some v"
      with r have l: "res_headers res ''location'' = Some (Str v)"
        by (simp add: node_headers_location)
      show "snd (onResponse pf st ex sg res session) =
                 (case href pf v (s_url st) of
                    None \<Rightarrow> Reject InvalidURL
                  | Some l \<Rightarrow>
                      redirect_driver pf st ex res
                        ((res_headers res)(''set-cookie'' := None, ''set-cookie2'' := None))
                        (Some l))"
        using na l
        by (simp add: onResponse_def parseLocation_def Let_def split: option.splits)
    }
  }
next
  assume a: "setupFetch pf (now0 h) (now1 h) session input
         (init\<lparr> signal := signal_now init (aborted_at_setup h) \<rparr>) ex = Inr st
       \<and> event h = ResponseEvent res
       \<and> res_headers res = node_headers raw \<and> map_of raw ''location'' = None
       \<and> isRedirectStatus pf (statusCode res)
       \<and> (signal init \<noteq> None \<longrightarrow> (\<forall>a. abort_fires h = Some a \<longrightarrow> arrives h < a))
       \<and> (\<forall>d. s_timeoutInfo st = Some d \<longrightarrow> arrives h < now1 h + d)"
  then have su: "setupFetch pf (now0 h) (now1 h) session input
         (init\<lparr> signal := signal_now init (aborted_at_setup h) \<rparr>) ex = Inr st"
    and ev: "event h = ResponseEvent res"
    and sg: "signal init \<noteq> None \<longrightarrow> (\<forall>a. abort_fires h = Some a \<longrightarrow> arrives h < a)"
    and tm: "\<forall>d. s_timeoutInfo st = Some d \<longrightarrow> arrives h < now1 h + d"
    and rs: "isRedirectStatus pf (statusCode res)"
    by simp_all
  from a have "res_headers res ''location'' = None"
    by (simp add: node_headers_location)
  then have loc: "parseLocation (href pf) (res_headers res ''location'') (url input) = Inr None"
    by (simp add: parseLocation_def)
  from attempt_on_response[OF su ev sg tm loc] redirect_driver_no_location[OF rs]
  show "fetchImpl pf (h # hs) session input init ex =
           Some ((if truthy (res_headers res ''set-cookie'')
                  then session\<lparr> cookieJar :=
                         setCookies (arrayify (res_headers res ''set-cookie'')) (url input)
                           (cookieJar session) \<rparr>
                  else session),
                 [Sent st], Settled (Rejected IllegalRedirect))"
    by simp
qed

theorem location_header_as_delivered_witness:
  "isRedirectStatus example_platform (statusCode found_nowhere)
   \<and> res_headers found_nowhere
       = node_headers [(''set-cookie'', ''foo=bar'')]
   \<and> map_of [(''set-cookie'', ''foo=bar'')] ''location'' = None
   \<and> snd (onResponse example_platform
            (projr (setupFetch example_platform 0 0 example_session (get_request ''http://a/'')
                      no_init first_hop))
            first_hop None found_nowhere example_session) = Reject IllegalRedirect
   \<and> map_option (snd \<circ> snd)
        (fetchImpl example_platform [respond 0 1 found_nowhere] example_session
           (get_request ''http://a/'') no_init first_hop)
       = Some (Settled (Rejected IllegalRedirect))
   \<and> res_headers found_repeated ''location'' = Some (Str ''http://b/'')"
proof -
  let ?raw = "[(''set-cookie'', ''foo=bar'')] :: (string \<times> string) list"
  let ?h = "respond 0 1 found_nowhere"
  let ?init = "no_init\<lparr> signal := signal_now no_init (aborted_at_setup ?h) \<rparr>"
  let ?s = "setupFetch example_platform (now0 ?h) (now1 ?h) example_session
              (get_request ''http://a/'') ?init first_hop"
  let ?plain = "setupFetch example_platform 0 0 example_session (get_request ''http://a/'')
               no_init first_hop"
  have s: "?s = Inr (projr ?s)" and eqs: "?s = ?plain"
    by (simp_all add: model_defs example_defs)
  have rs: "isRedirectStatus example_platform (statusCode found_nowhere)"
    by (simp add: example_defs found_nowhere_def delivered_def)
  have rh: "res_headers found_nowhere = node_headers ?raw"
    by (simp add: found_nowhere_def delivered_def)
  have nl: "map_of ?raw ''location'' = None" by simp
  have na: "\<not> (case None :: signal option of Some s \<Rightarrow> aborted s | None \<Rightarrow> False)"
    by simp
  have ev: "event ?h = ResponseEvent found_nowhere" by (simp add: respond_def)
  have sg: "signal no_init \<noteq> None \<longrightarrow> (\<forall>a. abort_fires ?h = Some a \<longrightarrow> arrives ?h < a)"
    by (simp add: example_defs)
  have tm: "\<forall>d. s_timeoutInfo (projr ?s) = Some d \<longrightarrow> arrives ?h < now1 ?h + d"
    by (simp add: model_defs example_defs)
  note T = location_header_as_delivered[where pf = example_platform and res = found_nowhere
             and raw = ?raw and sg = None and st = "projr ?s" and ex = first_hop
             and session = example_session and h = ?h and input = "get_request ''http://a/''"
             and init = no_init and hs = "[]"]
  have listener: "snd (onResponse example_platform (projr ?s) first_hop None found_nowhere
                         example_session) = Reject IllegalRedirect"
    using T[THEN conjunct2, THEN conjunct2, THEN conjunct2, THEN conjunct2, THEN conjunct1,
            rule_format, THEN conjunct2, rule_format, THEN conjunct1, rule_format]
          rs na rh nl
    by blast
  have chain: "fetchImpl example_platform [?h] example_session (get_request ''http://a/'')
                 no_init first_hop
               = Some ((if truthy (res_headers found_nowhere ''set-cookie'')
                        then example_session\<lparr> cookieJar :=
                               setCookies (arrayify (res_headers found_nowhere ''set-cookie''))
                                 (url (get_request ''http://a/'')) (cookieJar example_session) \<rparr>
                        else example_session),
                       [Sent (projr ?s)], Settled (Rejected IllegalRedirect))"
    using T[THEN conjunct2, THEN conjunct2, THEN conjunct2, THEN conjunct2, THEN conjunct2,
            rule_format]
          s ev rh nl rs sg tm
    by blast
  have first: "res_headers found_repeated ''location'' = Some (Str ''http://b/'')"
    using location_header_as_delivered[where
            raw = "[(''location'', ''http://b/''), (''set-cookie'', ''foo=bar''),
                    (''location'', ''http://c/'')]", THEN conjunct2, THEN conjunct2,
            THEN conjunct2, THEN conjunct1]
    by (simp add: found_repeated_def delivered_def)
  from chain have "map_option (snd \<circ> snd)
        (fetchImpl example_platform [?h] example_session (get_request ''http://a/'')
           no_init first_hop) = Some (Settled (Rejected IllegalRedirect))"
    by simp
  with rs rh nl listener first show ?thesis
    unfolding eqs by simp
qed

text \<open>
  C10, as the claim has it, fails: a response sent with two location lines reaches the
  listener with the first location as a string, and a GET under the policy \<open>Follow\<close> is
  sent again to that location, while the same response without a location line is
  rejected with the illegal-redirect error. And a response without a location line that
  arrives after the signal was aborted is not rejected by the listener at all: the call
  ends with \<open>AbortError\<close>.
\<close>

theorem repeated_location_is_followed:
  "isRedirectStatus example_platform (statusCode found_repeated)
   \<and> res_headers found_repeated ''location'' = Some (Str ''http://b/'')
   \<and> map_option (sent_urls \<circ> fst \<circ> snd)
        (fetch example_platform [respond 0 1 found_repeated, respond 1 2 ok] example_session
           (get_request ''http://a/'') no_init) = Some [''http://a/'', ''http://b/'']
   \<and> map_option (snd \<circ> snd)
        (fetch example_platform [respond 0 1 found_repeated, respond 1 2 ok] example_session
           (get_request ''http://a/'') no_init) \<noteq> Some (Settled (Rejected IllegalRedirect))
   \<and> map_option (snd \<circ> snd)
        (fetch example_platform [respond 0 1 found_nowhere, respond 1 2 ok] example_session
           (get_request ''http://a/'') no_init) = Some (Settled (Rejected IllegalRedirect))
   \<and> onResponse example_platform
         (projr (setupFetch example_platform 0 0 example_session (get_request ''http://a/'')
                   signal_init first_hop))
         first_hop (Some \<lparr> aborted = True \<rparr>) found_nowhere example_session
       = (example_session, Ignored)
   \<and> map_option (snd \<circ> snd)
        (fetch example_platform [respond_after_abort 0 5 10 found_nowhere] example_session
           (get_request ''http://a/'') signal_init) = Some (Settled (Rejected AbortError))"
  by (simp add: model_defs example_defs found_repeated_def found_nowhere_def delivered_def
        node_headers_def add_header_def single_valued_def respond_after_abort_def)

end
